theory Spec2Isabelle
  imports Complex_Main
begin

section \<open>Floating-point values of the script\<close>

text \<open>
  Every number the script run_aapl_ewma_voltarget.py handles is a float64. The model keeps
  the three special outcomes of float arithmetic that steer the script's control flow
  (the two infinities and not-a-number, which pandas also uses for a missing entry) and
  takes every other value as an exact real: rounding, overflow and the sign of zero are
  not modelled.
\<close>

datatype fl = Fin real | PInf | NInf | NaN

datatype py_error = ZeroDivisionError | ValueError | KeyError

definition signed_inf :: "real \<Rightarrow> fl" where
  "signed_inf s = (if 0 < s then PInf else if s < 0 then NInf else NaN)"

fun fneg :: "fl \<Rightarrow> fl" where
  "fneg (Fin a) = Fin (- a)"
| "fneg PInf = NInf"
| "fneg NInf = PInf"
| "fneg NaN = NaN"

fun fadd :: "fl \<Rightarrow> fl \<Rightarrow> fl" where
  "fadd (Fin a) (Fin b) = Fin (a + b)"
| "fadd NaN y = NaN"
| "fadd x NaN = NaN"
| "fadd PInf NInf = NaN"
| "fadd NInf PInf = NaN"
| "fadd PInf y = PInf"
| "fadd x PInf = PInf"
| "fadd NInf y = NInf"
| "fadd x NInf = NInf"

definition fsub :: "fl \<Rightarrow> fl \<Rightarrow> fl" where
  "fsub x y = fadd x (fneg y)"

fun fmul :: "fl \<Rightarrow> fl \<Rightarrow> fl" where
  "fmul (Fin a) (Fin b) = Fin (a * b)"
| "fmul NaN y = NaN"
| "fmul x NaN = NaN"
| "fmul (Fin a) PInf = signed_inf a"
| "fmul (Fin a) NInf = signed_inf (- a)"
| "fmul PInf (Fin b) = signed_inf b"
| "fmul NInf (Fin b) = signed_inf (- b)"
| "fmul PInf PInf = PInf"
| "fmul PInf NInf = NInf"
| "fmul NInf PInf = NInf"
| "fmul NInf NInf = PInf"

text \<open>numpy's true division: a zero divisor gives an infinity or not-a-number, no exception.\<close>

fun fdiv :: "fl \<Rightarrow> fl \<Rightarrow> fl" where
  "fdiv (Fin a) (Fin b) = (if b = 0 then signed_inf a else Fin (a / b))"
| "fdiv NaN y = NaN"
| "fdiv x NaN = NaN"
| "fdiv (Fin a) PInf = Fin 0"
| "fdiv (Fin a) NInf = Fin 0"
| "fdiv PInf (Fin b) = (if b < 0 then NInf else PInf)"
| "fdiv NInf (Fin b) = (if b < 0 then PInf else NInf)"
| "fdiv PInf PInf = NaN"
| "fdiv PInf NInf = NaN"
| "fdiv NInf PInf = NaN"
| "fdiv NInf NInf = NaN"

fun fsqrt :: "fl \<Rightarrow> fl" where
  "fsqrt (Fin a) = (if a < 0 then NaN else Fin (sqrt a))"
| "fsqrt PInf = PInf"
| "fsqrt NInf = NaN"
| "fsqrt NaN = NaN"

fun fabs :: "fl \<Rightarrow> fl" where
  "fabs (Fin a) = Fin \<bar>a\<bar>"
| "fabs PInf = PInf"
| "fabs NInf = PInf"
| "fabs NaN = NaN"

text \<open>Comparisons: any comparison with not-a-number is false.\<close>

fun flt :: "fl \<Rightarrow> fl \<Rightarrow> bool" where
  "flt (Fin a) (Fin b) = (a < b)"
| "flt NaN y = False"
| "flt x NaN = False"
| "flt PInf y = False"
| "flt x NInf = False"
| "flt NInf y = True"
| "flt x PInf = True"

definition fgt :: "fl \<Rightarrow> fl \<Rightarrow> bool" where
  "fgt x y = flt y x"

fun fle :: "fl \<Rightarrow> fl \<Rightarrow> bool" where
  "fle (Fin a) (Fin b) = (a \<le> b)"
| "fle NaN y = False"
| "fle x NaN = False"
| "fle NInf y = True"
| "fle x PInf = True"
| "fle PInf y = False"
| "fle x NInf = False"

definition isna :: "fl \<Rightarrow> bool" where
  "isna x = (x = NaN)"

definition fillna :: "real \<Rightarrow> fl \<Rightarrow> fl" where
  "fillna v x = (if isna x then Fin v else x)"

definition dropna :: "fl list \<Rightarrow> fl list" where
  "dropna xs = filter (\<lambda>x. \<not> isna x) xs"

text \<open>
  Series.clip(lower, upper) with two scalar bounds: pandas first orders the bounds
  (lower, upper = min(lower, upper), max(lower, upper)) and leaves a missing entry missing.
\<close>

definition clip :: "real \<Rightarrow> real \<Rightarrow> fl \<Rightarrow> fl" where
  "clip lower upper x =
     (let lo = min lower upper; hi = max lower upper
      in case x of
           Fin a \<Rightarrow> Fin (min (max a lo) hi)
         | PInf \<Rightarrow> Fin hi
         | NInf \<Rightarrow> Fin lo
         | NaN \<Rightarrow> NaN)"

text \<open>np.clip(x, a_min, a_max) on a scalar: minimum(maximum(x, a_min), a_max).\<close>

definition np_clip :: "fl \<Rightarrow> real \<Rightarrow> real \<Rightarrow> fl" where
  "np_clip x a_min a_max =
     (case x of
        Fin a \<Rightarrow> Fin (min (max a a_min) a_max)
      | PInf \<Rightarrow> Fin a_max
      | NInf \<Rightarrow> Fin (min a_min a_max)
      | NaN \<Rightarrow> NaN)"

section \<open>Parameters\<close>

text \<open>
  The parameters are the local constants of main (source lines 89 to 96). The model takes
  them as a record, so that a property can be stated for every parameter choice;
  \<open>script_params\<close> are the values the script fixes.
\<close>

record params =
  lookback_vol :: real
  target_vol :: real
  lev_cap :: real
  sma_window :: nat
  sma_band :: real
  vix_cut :: real
  vix_width :: real
  cost_bps :: real

definition script_params :: params where
  "script_params =
     \<lparr> lookback_vol = 20, target_vol = 0.40, lev_cap = 1.3, sma_window = 20,
       sma_band = - 0.02, vix_cut = 35, vix_width = 10, cost_bps = 1 \<rparr>"

section \<open>The aligned frame and the returns\<close>

text \<open>
  The frame of line 82: one row per date, in date order, holding the close, the
  volatility index and the two-year yield, none of them missing. The date itself plays
  no part in what follows; a row is identified by its position.
\<close>

record px_row =
  aapl_close :: real
  vix :: real
  us2y_yield :: real

text \<open>Line 84, pct_change: the first entry is missing, the others are P(t) / P(t-1) - 1.\<close>

fun pct_change_from :: "real \<Rightarrow> real list \<Rightarrow> fl list" where
  "pct_change_from prev [] = []"
| "pct_change_from prev (x # xs) =
     fsub (fdiv (Fin x) (Fin prev)) (Fin 1) # pct_change_from x xs"

fun pct_change :: "real list \<Rightarrow> fl list" where
  "pct_change [] = []"
| "pct_change (x # xs) = NaN # pct_change_from x xs"

record ret_row =
  px :: px_row
  ret :: fl
  rf_daily :: real

text \<open>Lines 84 to 86: the two new columns, then dropna() removes the rows with a missing return.\<close>

definition returns_frame :: "px_row list \<Rightarrow> ret_row list" where
  "returns_frame df =
     filter (\<lambda>r. \<not> isna (ret r))
       (map2 (\<lambda>x rt. \<lparr> px = x, ret = rt, rf_daily = (us2y_yield x / 100) / 252 \<rparr>)
          df (pct_change (map aapl_close df)))"

section \<open>Signal columns\<close>

text \<open>
  Line 99, rolling(window).mean(): min_periods is the window, so the entry is missing
  until the window is full.
\<close>

definition rolling_mean :: "nat \<Rightarrow> real list \<Rightarrow> fl list" where
  "rolling_mean n xs =
     map (\<lambda>i. if n = 0 \<or> i + 1 < n then NaN
               else Fin (sum_list (take n (drop (i + 1 - n) xs)) / real n))
       [0..<length xs]"

text \<open>Line 100: the comparison is false on a missing average, and astype(float) makes it 0.0.\<close>

definition trend_ok_at :: "params \<Rightarrow> real \<Rightarrow> fl \<Rightarrow> fl" where
  "trend_ok_at p c s = (if fgt (Fin c) (fmul (Fin (1 + sma_band p)) s) then Fin 1 else Fin 0)"

text \<open>Line 103: a division of two Python floats, which raises on a zero divisor.\<close>

definition alpha_of :: "params \<Rightarrow> py_error + real" where
  "alpha_of p =
     (if lookback_vol p + 1 = 0 then Inl ZeroDivisionError
      else Inr (2 / (lookback_vol p + 1)))"

text \<open>
  Line 104, ewm(alpha=alpha, adjust=False).mean() on a series without missing entries:
  pandas refuses a smoothing factor outside (0, 1] with a ValueError; otherwise
  y(0) = x(0) and y(t) = (1 - alpha) y(t-1) + alpha x(t).
\<close>

fun ewm_from :: "real \<Rightarrow> fl \<Rightarrow> fl list \<Rightarrow> fl list" where
  "ewm_from a y [] = []"
| "ewm_from a y (x # xs) =
     (let y' = fadd (fmul (Fin (1 - a)) y) (fmul (Fin a) x) in y' # ewm_from a y' xs)"

fun ewm_rec :: "real \<Rightarrow> fl list \<Rightarrow> fl list" where
  "ewm_rec a [] = []"
| "ewm_rec a (x # xs) = x # ewm_from a x xs"

definition ewm_mean :: "real \<Rightarrow> fl list \<Rightarrow> py_error + fl list" where
  "ewm_mean a xs = (if a \<le> 0 \<or> 1 < a then Inl ValueError else Inr (ewm_rec a xs))"

text \<open>Line 105: np.sqrt(252.0 * ewma_var).replace(0, np.nan).\<close>

definition vol_hat_ann_at :: "fl \<Rightarrow> fl" where
  "vol_hat_ann_at v = (let s = fsqrt (fmul (Fin 252) v) in if s = Fin 0 then NaN else s)"

text \<open>Line 107: (target_vol / vol_hat_ann).clip(lower=0.0, upper=lev_cap).fillna(0.0).\<close>

definition w_raw_at :: "params \<Rightarrow> fl \<Rightarrow> fl" where
  "w_raw_at p v = fillna 0 (clip 0 (lev_cap p) (fdiv (Fin (target_vol p)) v))"

text \<open>Line 108, one entry of the column: (1.0 - (vix - vix_cut) / vix_width).clip(lower=0.0, upper=1.0).\<close>

definition g_vix_at :: "params \<Rightarrow> real \<Rightarrow> fl" where
  "g_vix_at p v =
     clip 0 1 (fsub (Fin 1) (fdiv (fsub (Fin v) (Fin (vix_cut p))) (Fin (vix_width p))))"

text \<open>Line 109: (w_raw * trend_ok * g_vix).clip(lower=0.0, upper=lev_cap).\<close>

definition w_at :: "params \<Rightarrow> fl \<Rightarrow> fl \<Rightarrow> fl \<Rightarrow> fl" where
  "w_at p wr t g = clip 0 (lev_cap p) (fmul (fmul wr t) g)"

section \<open>The simulation\<close>

text \<open>Line 111: shift(1) moves every entry one row down and leaves the first row missing.\<close>

definition shift1 :: "fl list \<Rightarrow> fl list" where
  "shift1 xs = (case xs of [] \<Rightarrow> [] | y # ys \<Rightarrow> NaN # butlast xs)"

text \<open>Lines 112 to 116, one row.\<close>

definition gross_at :: "fl \<Rightarrow> fl \<Rightarrow> real \<Rightarrow> fl" where
  "gross_at wp r rf = fadd (fmul wp r) (fmul (fsub (Fin 1) wp) (Fin rf))"

definition turnover_at :: "fl \<Rightarrow> fl \<Rightarrow> fl" where
  "turnover_at wt wp = fabs (fsub wt wp)"

definition cost_at :: "params \<Rightarrow> fl \<Rightarrow> fl" where
  "cost_at p tn = fmul (Fin (cost_bps p / 10000)) tn"

text \<open>
  cumprod and cummax of pandas skip a missing entry: the entry stays missing and the
  running value goes on from the entry before it.
\<close>

fun cumprod_from :: "fl \<Rightarrow> fl list \<Rightarrow> fl list" where
  "cumprod_from acc [] = []"
| "cumprod_from acc (x # xs) =
     (if isna x then NaN # cumprod_from acc xs
      else let a = fmul acc x in a # cumprod_from a xs)"

definition cumprod :: "fl list \<Rightarrow> fl list" where
  "cumprod xs = cumprod_from (Fin 1) xs"

definition fmax :: "fl \<Rightarrow> fl \<Rightarrow> fl" where
  "fmax x y = (if isna x \<or> isna y then NaN else if flt x y then y else x)"

fun cummax_from :: "fl \<Rightarrow> fl list \<Rightarrow> fl list" where
  "cummax_from acc [] = []"
| "cummax_from acc (x # xs) =
     (if isna x then NaN # cummax_from acc xs
      else let a = fmax acc x in a # cummax_from a xs)"

definition cummax :: "fl list \<Rightarrow> fl list" where
  "cummax xs = cummax_from NInf xs"

section \<open>Statistics of a series\<close>

fun fsum :: "fl list \<Rightarrow> fl" where
  "fsum [] = Fin 0"
| "fsum (x # xs) = fadd x (fsum xs)"

fun fprod :: "fl list \<Rightarrow> fl" where
  "fprod [] = Fin 1"
| "fprod (x # xs) = fmul x (fprod xs)"

text \<open>Series.mean(), Series.std() and Series.min() leave the missing entries out.\<close>

definition mean :: "fl list \<Rightarrow> fl" where
  "mean xs = (let v = dropna xs in if v = [] then NaN else fdiv (fsum v) (Fin (real (length v))))"

text \<open>
  The sample standard deviation (ddof = 1): missing when fewer than two entries are left.
\<close>

definition std :: "fl list \<Rightarrow> fl" where
  "std xs =
     (let v = dropna xs; n = length v
      in if n \<le> 1 then NaN
         else let avg = fdiv (fsum v) (Fin (real n));
                  sqr = map (\<lambda>x. let d = fsub avg x in fmul d d) v
              in fsqrt (fdiv (fsum sqr) (Fin (real (n - 1)))))"

definition fmin :: "fl \<Rightarrow> fl \<Rightarrow> fl" where
  "fmin x y = (if flt y x then y else x)"

definition series_min :: "fl list \<Rightarrow> fl" where
  "series_min xs = (case dropna xs of [] \<Rightarrow> NaN | y # ys \<Rightarrow> foldl fmin y ys)"

text \<open>
  The power of a float64 by a float exponent: a negative base has a power only for a
  whole exponent.
\<close>

definition fpow :: "fl \<Rightarrow> real \<Rightarrow> fl" where
  "fpow x e =
     (if e = 0 then Fin 1
      else case x of
          Fin b \<Rightarrow>
            (if 0 < b then Fin (b powr e)
             else if b = 0 then (if 0 < e then Fin 0 else PInf)
             else if e = of_int \<lfloor>e\<rfloor> then Fin (b powi \<lfloor>e\<rfloor>) else NaN)
        | PInf \<Rightarrow> (if 0 < e then PInf else Fin 0)
        | NInf \<Rightarrow>
            (if 0 < e then (if e = of_int \<lfloor>e\<rfloor> \<and> odd \<lfloor>e\<rfloor> then NInf else PInf)
             else Fin 0)
        | NaN \<Rightarrow> NaN)"

section \<open>The performance evaluator\<close>

record kpi_record =
  CAGR :: fl
  AnnVol :: fl
  Sharpe :: fl
  MaxDD :: fl
  Calmar :: fl

text \<open>Lines 61 and 62, and lines 48 and 49 of kpis.\<close>

definition drawdown :: "fl list \<Rightarrow> fl list" where
  "drawdown eq = map2 (\<lambda>e m. fsub (fdiv e m) (Fin 1)) eq (cummax eq)"

text \<open>
  Lines 37 to 42. A series is indexed by position here, and rf.loc[r.index] raises a
  KeyError when rf has no entry at a position that r keeps.
\<close>

definition kept_index :: "fl list \<Rightarrow> nat list" where
  "kept_index returns = filter (\<lambda>i. \<not> isna (returns ! i)) [0..<length returns]"

definition excess :: "fl list \<Rightarrow> fl list option \<Rightarrow> py_error + fl list" where
  "excess returns rf =
     (case rf of
        None \<Rightarrow> Inr (dropna returns)
      | Some f \<Rightarrow>
          if list_ex (\<lambda>i. length f \<le> i) (kept_index returns) then Inl KeyError
          else Inr (dropna (map (\<lambda>i. fsub (returns ! i) (f ! i)) (kept_index returns))))"

text \<open>Lines 44 to 59, for the series r without missing entries and its excess returns ex.\<close>

definition kpi_values :: "fl list \<Rightarrow> fl list \<Rightarrow> py_error + kpi_record" where
  "kpi_values r ex =
     (if length r = 0 then Inl ZeroDivisionError
      else
        let ann_ret = fsub (fpow (fprod (map (fadd (Fin 1)) r)) (252 / real (length r))) (Fin 1);
            ann_vol = fmul (std r) (Fin (sqrt 252));
            sharpe = (if fgt (std r) (Fin 0)
                      then fmul (fdiv (mean ex) (std r)) (Fin (sqrt 252)) else NaN);
            eq = cumprod (map (fadd (Fin 1)) r);
            dd = drawdown eq;
            maxdd = series_min dd;
            calmar = (if flt maxdd (Fin 0) then fdiv ann_ret (fabs maxdd) else NaN)
        in Inr \<lparr> CAGR = ann_ret, AnnVol = ann_vol, Sharpe = sharpe,
                 MaxDD = maxdd, Calmar = calmar \<rparr>)"

definition kpis :: "fl list \<Rightarrow> fl list option \<Rightarrow> py_error + kpi_record" where
  "kpis returns rf =
     (case excess returns rf of
        Inl e \<Rightarrow> Inl e
      | Inr ex \<Rightarrow> kpi_values (dropna returns) ex)"

section \<open>The run of main\<close>

text \<open>
  The columns of df after line 128, with the local series w_prev and turnover and the
  scalar w_bh of main. All columns share the index of df, so an entry is read by its
  position.
\<close>

record frame =
  rows :: "ret_row list"
  sma20 :: "fl list"
  trend_ok :: "fl list"
  ewma_var :: "fl list"
  vol_hat_ann :: "fl list"
  w_raw :: "fl list"
  g_vix :: "fl list"
  w :: "fl list"
  w_prev :: "fl list"
  turnover :: "fl list"
  strat_ret :: "fl list"
  bh_ret :: "fl list"
  eq_strat :: "fl list"
  eq_bh :: "fl list"
  w_bh :: fl
  bh_vm_ret :: "fl list"
  eq_bh_vm :: "fl list"

definition w_col :: "params \<Rightarrow> fl list \<Rightarrow> fl list \<Rightarrow> fl list \<Rightarrow> fl list" where
  "w_col p wr tr g = map (\<lambda>i. w_at p (wr ! i) (tr ! i) (g ! i)) [0..<length wr]"

definition w_prev_col :: "fl list \<Rightarrow> fl list" where
  "w_prev_col ws = map (fillna 0) (shift1 ws)"

definition strat_ret_col :: "params \<Rightarrow> fl list \<Rightarrow> fl list \<Rightarrow> ret_row list \<Rightarrow> fl list" where
  "strat_ret_col p ws wp df =
     map (\<lambda>i. fsub (gross_at (wp ! i) (ret (df ! i)) (rf_daily (df ! i)))
                    (cost_at p (turnover_at (ws ! i) (wp ! i))))
       [0..<length df]"

text \<open>Lines 123 to 125.\<close>

definition w_bh_of :: "fl list \<Rightarrow> fl list \<Rightarrow> fl" where
  "w_bh_of strat bh =
     (let bh_vol = fmul (std bh) (Fin (sqrt 252));
          strat_vol = fmul (std strat) (Fin (sqrt 252))
      in np_clip (if fgt bh_vol (Fin 0) then fdiv strat_vol bh_vol else Fin 1) 0 3)"

text \<open>Line 127.\<close>

definition bh_vm_ret_at :: "fl \<Rightarrow> fl \<Rightarrow> real \<Rightarrow> fl" where
  "bh_vm_ret_at wb r rf = fadd (fmul wb r) (fmul (fsub (Fin 1) wb) (Fin rf))"

text \<open>
  Lines 84 to 128 of main on the frame of line 82. The only statements that can raise are
  the division of line 103 and the ewm call of line 104.
\<close>

definition main_frame :: "params \<Rightarrow> px_row list \<Rightarrow> py_error + frame" where
  "main_frame p df0 =
     (let df = returns_frame df0;
          closes = map (\<lambda>r. aapl_close (px r)) df;
          sma = rolling_mean (sma_window p) closes;
          trend = map (\<lambda>i. trend_ok_at p (closes ! i) (sma ! i)) [0..<length df]
      in case alpha_of p of
           Inl e \<Rightarrow> Inl e
         | Inr alpha \<Rightarrow>
            (case ewm_mean alpha (map (\<lambda>r. fmul (ret r) (ret r)) df) of
               Inl e \<Rightarrow> Inl e
             | Inr ev \<Rightarrow>
                 let vol = map vol_hat_ann_at ev;
                     wr = map (w_raw_at p) vol;
                     g = map (\<lambda>r. g_vix_at p (vix (px r))) df;
                     ws = w_col p wr trend g;
                     wp = w_prev_col ws;
                     tn = map (\<lambda>i. turnover_at (ws ! i) (wp ! i)) [0..<length df];
                     strat = strat_ret_col p ws wp df;
                     bh = map ret df;
                     wb = w_bh_of strat bh;
                     bh_vm = map (\<lambda>r. bh_vm_ret_at wb (ret r) (rf_daily r)) df
                 in Inr \<lparr> rows = df, sma20 = sma, trend_ok = trend, ewma_var = ev,
                          vol_hat_ann = vol, w_raw = wr, g_vix = g, w = ws, w_prev = wp,
                          turnover = tn, strat_ret = strat, bh_ret = bh,
                          eq_strat = cumprod (map (fadd (Fin 1)) strat),
                          eq_bh = cumprod (map (fadd (Fin 1)) bh),
                          w_bh = wb, bh_vm_ret = bh_vm,
                          eq_bh_vm = cumprod (map (fadd (Fin 1)) bh_vm) \<rparr>))"

text \<open>Lines 130 to 132: the three KPI records, each of which may raise.\<close>

definition main :: "params \<Rightarrow> px_row list
    \<Rightarrow> py_error + (frame \<times> kpi_record \<times> kpi_record \<times> kpi_record)" where
  "main p df0 =
     (case main_frame p df0 of
        Inl e \<Rightarrow> Inl e
      | Inr f \<Rightarrow>
         (let rf = Some (map (\<lambda>r. Fin (rf_daily r)) (rows f))
          in case kpis (strat_ret f) rf of
               Inl e \<Rightarrow> Inl e
             | Inr k1 \<Rightarrow>
                (case kpis (bh_ret f) rf of
                   Inl e \<Rightarrow> Inl e
                 | Inr k2 \<Rightarrow>
                    (case kpis (bh_vm_ret f) rf of
                       Inl e \<Rightarrow> Inl e
                     | Inr k3 \<Rightarrow> Inr (f, k1, k2, k3)))))"

section \<open>A small frame to run the script on\<close>

text \<open>
  Three dates with the same close, a volatility index of 35 (the script's vix_cut) and a
  two-year yield of 2.52 percent, which makes the daily risk-free rate 0.0001.
\<close>

definition flat_row :: px_row where
  "flat_row = \<lparr> aapl_close = 100, vix = 35, us2y_yield = 252 / 100 \<rparr>"

definition flat_frame :: "px_row list" where
  "flat_frame = [flat_row, flat_row, flat_row]"

definition flat_ret_row :: ret_row where
  "flat_ret_row = \<lparr> px = flat_row, ret = Fin 0, rf_daily = 1 / 10000 \<rparr>"


text \<open>What main computes on the flat frame with the script's parameters.\<close>

definition flat_result :: frame where
  "flat_result =
     \<lparr> rows = [flat_ret_row, flat_ret_row], sma20 = [NaN, NaN],
       trend_ok = [Fin 0, Fin 0], ewma_var = [Fin 0, Fin 0],
       vol_hat_ann = [NaN, NaN], w_raw = [Fin 0, Fin 0], g_vix = [Fin 1, Fin 1],
       w = [Fin 0, Fin 0], w_prev = [Fin 0, Fin 0], turnover = [Fin 0, Fin 0],
       strat_ret = [Fin (1 / 10000), Fin (1 / 10000)], bh_ret = [Fin 0, Fin 0],
       eq_strat = [Fin (10001 / 10000), Fin (10001 / 10000 * (10001 / 10000))],
       eq_bh = [Fin 1, Fin 1], w_bh = Fin 1, bh_vm_ret = [Fin 0, Fin 0],
       eq_bh_vm = [Fin 1, Fin 1] \<rparr>"

section \<open>Basic facts about the columns\<close>

lemma main_frame_cases:
  assumes "main_frame p df0 = Inr f"
  obtains alpha ev where "alpha_of p = Inr alpha"
    and "ewm_mean alpha (map (\<lambda>r. fmul (ret r) (ret r)) (returns_frame df0)) = Inr ev"
    and "rows f = returns_frame df0"
    and "ewma_var f = ev"
    and "sma20 f = rolling_mean (sma_window p) (map (\<lambda>r. aapl_close (px r)) (rows f))"
    and "trend_ok f = map (\<lambda>i. trend_ok_at p (map (\<lambda>r. aapl_close (px r)) (rows f) ! i)
                                     (sma20 f ! i))
                         [0..<length (rows f)]"
    and "vol_hat_ann f = map vol_hat_ann_at ev"
    and "w_raw f = map (w_raw_at p) (vol_hat_ann f)"
    and "g_vix f = map (\<lambda>r. g_vix_at p (vix (px r))) (rows f)"
    and "w f = w_col p (w_raw f) (trend_ok f) (g_vix f)"
    and "w_prev f = w_prev_col (w f)"
    and "turnover f = map (\<lambda>i. turnover_at (w f ! i) (w_prev f ! i)) [0..<length (rows f)]"
    and "strat_ret f = strat_ret_col p (w f) (w_prev f) (rows f)"
    and "bh_ret f = map ret (rows f)"
    and "w_bh f = w_bh_of (strat_ret f) (bh_ret f)"
    and "bh_vm_ret f = map (\<lambda>r. bh_vm_ret_at (w_bh f) (ret r) (rf_daily r)) (rows f)"
  using assms unfolding main_frame_def Let_def
  by (auto split: sum.splits)

lemma g_vix_at_Fin:
  assumes "vix_width p \<noteq> 0"
  shows "g_vix_at p v = Fin (min (max (1 - (v - vix_cut p) / vix_width p) 0) 1)"
  using assms by (simp add: g_vix_at_def fsub_def clip_def)

lemma length_ewm_from: "length (ewm_from a y xs) = length xs"
  by (induction xs arbitrary: y) (simp_all add: Let_def)

lemma length_ewm_rec: "length (ewm_rec a xs) = length xs"
  by (cases xs) (simp_all add: length_ewm_from)

lemma ewm_mean_length: "ewm_mean a xs = Inr ev \<Longrightarrow> length ev = length xs"
  by (auto simp: ewm_mean_def length_ewm_rec split: if_splits)

lemma w_raw_at_range:
  assumes "0 \<le> lev_cap p"
  shows "\<exists>x. w_raw_at p v = Fin x \<and> 0 \<le> x \<and> x \<le> lev_cap p"
  using assms
  by (cases "fdiv (Fin (target_vol p)) v")
     (auto simp: w_raw_at_def fillna_def isna_def clip_def Let_def min_def max_def)

lemma w_raw_at_Fin: "\<exists>x. w_raw_at p v = Fin x"
  by (cases "fdiv (Fin (target_vol p)) v")
     (auto simp: w_raw_at_def fillna_def isna_def clip_def Let_def)

lemma trend_ok_at_cases: "trend_ok_at p c s = Fin 0 \<or> trend_ok_at p c s = Fin 1"
  by (simp add: trend_ok_at_def)

lemma g_vix_at_range:
  assumes "vix_width p \<noteq> 0"
  shows "\<exists>g. g_vix_at p v = Fin g \<and> 0 \<le> g \<and> g \<le> 1"
  using g_vix_at_Fin [OF assms, of v] by (simp add: min_def max_def)

lemma w_at_range:
  assumes "0 \<le> lev_cap p"
  shows "\<exists>x. w_at p (Fin a) (Fin b) (Fin c) = Fin x \<and> 0 \<le> x \<and> x \<le> lev_cap p"
  using assms by (simp add: w_at_def clip_def Let_def min_def max_def)

lemma w_at_zero:
  assumes "0 \<le> lev_cap p" "b = 0 \<or> c = 0"
  shows "w_at p (Fin a) (Fin b) (Fin c) = Fin 0"
  using assms by (auto simp: w_at_def clip_def Let_def min_def max_def)

lemma length_shift1: "length (shift1 xs) = length xs"
  by (cases xs) (simp_all add: shift1_def)

lemma frame_lengths:
  assumes "main_frame p df0 = Inr f"
  shows "length (ewma_var f) = length (rows f)"
    and "length (vol_hat_ann f) = length (rows f)"
    and "length (w_raw f) = length (rows f)"
    and "length (trend_ok f) = length (rows f)"
    and "length (g_vix f) = length (rows f)"
    and "length (w f) = length (rows f)"
    and "length (w_prev f) = length (rows f)"
    and "length (strat_ret f) = length (rows f)"
    and "length (bh_ret f) = length (rows f)"
    and "length (bh_vm_ret f) = length (rows f)"
proof -
  from assms obtain alpha ev where a: "alpha_of p = Inr alpha"
    and e: "ewm_mean alpha (map (\<lambda>r. fmul (ret r) (ret r)) (returns_frame df0)) = Inr ev"
    and r: "rows f = returns_frame df0" and ev: "ewma_var f = ev"
    and tr: "trend_ok f = map (\<lambda>i. trend_ok_at p (map (\<lambda>r. aapl_close (px r)) (rows f) ! i)
                                     (sma20 f ! i)) [0..<length (rows f)]"
    and vol: "vol_hat_ann f = map vol_hat_ann_at ev"
    and wr: "w_raw f = map (w_raw_at p) (vol_hat_ann f)"
    and g: "g_vix f = map (\<lambda>r. g_vix_at p (vix (px r))) (rows f)"
    and ws: "w f = w_col p (w_raw f) (trend_ok f) (g_vix f)"
    and wp: "w_prev f = w_prev_col (w f)"
    and st: "strat_ret f = strat_ret_col p (w f) (w_prev f) (rows f)"
    and bh: "bh_ret f = map ret (rows f)"
    and vm: "bh_vm_ret f = map (\<lambda>r. bh_vm_ret_at (w_bh f) (ret r) (rf_daily r)) (rows f)"
    by (rule main_frame_cases)
  show 1: "length (ewma_var f) = length (rows f)"
    using ewm_mean_length [OF e] by (simp add: ev r)
  show 2: "length (vol_hat_ann f) = length (rows f)" using 1 by (simp add: vol ev)
  show 3: "length (w_raw f) = length (rows f)" using 2 by (simp add: wr)
  show "length (trend_ok f) = length (rows f)" by (simp add: tr)
  show "length (g_vix f) = length (rows f)" by (simp add: g)
  show 6: "length (w f) = length (rows f)" using 3 by (simp add: ws w_col_def)
  show "length (w_prev f) = length (rows f)"
    using 6 by (simp add: wp w_prev_col_def length_shift1)
  show "length (strat_ret f) = length (rows f)" by (simp add: st strat_ret_col_def)
  show "length (bh_ret f) = length (rows f)" by (simp add: bh)
  show "length (bh_vm_ret f) = length (rows f)" by (simp add: vm)
qed


lemma shift1_nth:
  assumes "t < length xs"
  shows "shift1 xs ! t = (if t = 0 then NaN else xs ! (t - 1))"
proof (cases xs)
  case Nil
  with assms show ?thesis by simp
next
  case (Cons y ys)
  show ?thesis
  proof (cases t)
    case 0
    then show ?thesis by (simp add: shift1_def Cons)
  next
    case (Suc k)
    then have "k < length (butlast xs)" using assms by simp
    then have "butlast xs ! k = xs ! k" by (rule nth_butlast)
    then show ?thesis using Suc by (simp add: shift1_def Cons)
  qed
qed

lemma w_col_Fin:
  assumes "main_frame p df0 = Inr f" and "vix_width p \<noteq> 0" and "t < length (rows f)"
  shows "\<exists>x. w f ! t = Fin x"
proof -
  from assms(1) have
        tr: "trend_ok f = map (\<lambda>i. trend_ok_at p (map (\<lambda>r. aapl_close (px r)) (rows f) ! i)
                                     (sma20 f ! i)) [0..<length (rows f)]"
    and wr: "w_raw f = map (w_raw_at p) (vol_hat_ann f)"
    and g: "g_vix f = map (\<lambda>r. g_vix_at p (vix (px r))) (rows f)"
    and ws: "w f = w_col p (w_raw f) (trend_ok f) (g_vix f)"
    by (auto elim: main_frame_cases)
  note len = frame_lengths [OF assms(1)]
  obtain a where a: "w_raw f ! t = Fin a"
    using w_raw_at_Fin [of p "vol_hat_ann f ! t"] assms(3) len by (auto simp: wr)
  obtain b where b: "trend_ok f ! t = Fin b"
    using trend_ok_at_cases [of p "map (\<lambda>r. aapl_close (px r)) (rows f) ! t" "sma20 f ! t"]
      assms(3) by (auto simp: tr)
  obtain c where c: "g_vix f ! t = Fin c"
    using g_vix_at_range [OF assms(2), of "vix (px (rows f ! t))"] assms(3) by (auto simp: g)
  have "w f ! t = w_at p (Fin a) (Fin b) (Fin c)"
    using assms(3) len a b c by (simp add: ws w_col_def)
  then show ?thesis by (simp add: w_at_def clip_def Let_def)
qed


lemma returns_frame_flat: "returns_frame flat_frame = [flat_ret_row, flat_ret_row]"
  by (simp add: returns_frame_def flat_frame_def flat_row_def flat_ret_row_def fsub_def isna_def)

lemma alpha_of_cases:
  "alpha_of p = (if lookback_vol p = - 1 then Inl ZeroDivisionError else Inr (2 / (lookback_vol p + 1)))"
  by (auto simp: alpha_of_def)

lemma alpha_range:
  assumes "l + 1 \<noteq> (0::real)"
  shows "(2 / (l + 1) \<le> 0 \<or> 1 < 2 / (l + 1)) \<longleftrightarrow> l < 1"
proof (cases "0 < l + 1")
  case True
  then show ?thesis by (auto simp: field_simps)
next
  case False
  then have neg: "l + 1 < 0" using assms by simp
  then have "2 / (l + 1) < 0" by (simp add: divide_less_0_iff)
  then show ?thesis using neg by simp
qed


lemma std_pair_equal: "std [Fin a, Fin a] = Fin 0"
  by (simp add: std_def dropna_def isna_def Let_def fsub_def)

lemma std_single: "std [Fin a] = NaN"
  by (simp add: std_def dropna_def isna_def Let_def)

lemma ewm_flat: "ewm_mean (2 / 21) [Fin 0, Fin 0] = Inr [Fin 0, Fin 0]"
  by (simp add: ewm_mean_def Let_def)

lemma main_frame_flat:
  "main_frame script_params flat_frame = Inr flat_result"
proof -
  have a: "alpha_of script_params = Inr (2 / 21)"
    by (simp add: alpha_of_def script_params_def)
  have sq: "map (\<lambda>r. fmul (ret r) (ret r)) [flat_ret_row, flat_ret_row] = [Fin 0, Fin 0]"
    by (simp add: flat_ret_row_def)
  have sma: "rolling_mean (sma_window script_params) [100, 100] = [NaN, NaN]"
    by (simp add: rolling_mean_def script_params_def)
  have cl: "map (\<lambda>r. aapl_close (px r)) [flat_ret_row, flat_ret_row] = [100, 100]"
    by (simp add: flat_ret_row_def flat_row_def)
  have tr: "trend_ok_at script_params c NaN = Fin 0" for c
    by (simp add: trend_ok_at_def fgt_def)
  have vol: "vol_hat_ann_at (Fin 0) = NaN" by (simp add: vol_hat_ann_at_def)
  have wr: "w_raw_at script_params NaN = Fin 0"
    by (simp add: w_raw_at_def clip_def fillna_def isna_def)
  have g: "g_vix_at script_params (vix (px flat_ret_row)) = Fin 1"
    by (simp add: g_vix_at_def flat_ret_row_def flat_row_def script_params_def fsub_def clip_def)
  have ws: "w_col script_params [Fin 0, Fin 0] [Fin 0, Fin 0] [Fin 1, Fin 1] = [Fin 0, Fin 0]"
    by (simp add: w_col_def w_at_def clip_def script_params_def)
  have wp: "w_prev_col [Fin 0, Fin 0] = [Fin 0, Fin 0]"
    by (simp add: w_prev_col_def shift1_def fillna_def isna_def)
  have st: "strat_ret_col script_params [Fin 0, Fin 0] [Fin 0, Fin 0] [flat_ret_row, flat_ret_row]
              = [Fin (1 / 10000), Fin (1 / 10000)]"
    by (simp add: strat_ret_col_def gross_at_def cost_at_def turnover_at_def fsub_def
        flat_ret_row_def)
  have wb: "w_bh_of [Fin (1 / 10000), Fin (1 / 10000)] [Fin 0, Fin 0] = Fin 1"
    by (simp add: w_bh_of_def std_pair_equal fgt_def np_clip_def Let_def)
  have vm: "bh_vm_ret_at (Fin 1) (Fin 0) x = Fin 0" for x
    by (simp add: bh_vm_ret_at_def fsub_def)
  have tn: "turnover_at (Fin 0) (Fin 0) = Fin 0" by (simp add: turnover_at_def fsub_def)
  have cp1: "cumprod [Fin 1, Fin 1] = [Fin 1, Fin 1]"
    by (simp add: cumprod_def isna_def Let_def)
  have cp2: "cumprod [Fin (10001 / 10000), Fin (10001 / 10000)]
               = [Fin (10001 / 10000), Fin (10001 / 10000 * (10001 / 10000))]"
    by (simp add: cumprod_def isna_def Let_def)
  have r0: "ret flat_ret_row = Fin 0" by (simp add: flat_ret_row_def)
  show ?thesis
    unfolding main_frame_def returns_frame_flat Let_def cl sma a sq flat_result_def
    by (simp add: ewm_flat tr vol wr g ws wp st wb vm tn cp1 cp2 r0)
qed

lemma main_frame_total:
  assumes "1 \<le> lookback_vol p"
  shows "\<exists>f. main_frame p df0 = Inr f"
proof -
  have nz: "lookback_vol p + 1 \<noteq> 0" using assms by simp
  have "\<not> (2 / (lookback_vol p + 1) \<le> 0 \<or> 1 < 2 / (lookback_vol p + 1))"
    using alpha_range [OF nz] assms by simp
  then show ?thesis
    using nz by (simp add: main_frame_def alpha_of_def ewm_mean_def Let_def)
qed

lemma flat_frame_columns:
  assumes f: "main_frame p flat_frame = Inr f" and l: "lookback_vol p = 20"
    and n: "2 < sma_window p"
  shows "rows f = [flat_ret_row, flat_ret_row]"
    and "sma20 f = [NaN, NaN]"
    and "trend_ok f = [Fin 0, Fin 0]"
    and "ewma_var f = [Fin 0, Fin 0]"
    and "vol_hat_ann f = [NaN, NaN]"
    and "w_raw f = [Fin 0, Fin 0]"
    and "g_vix f = [g_vix_at p 35, g_vix_at p 35]"
    and "w f = [w_at p (Fin 0) (Fin 0) (g_vix_at p 35), w_at p (Fin 0) (Fin 0) (g_vix_at p 35)]"
proof -
  from f obtain alpha ev where a: "alpha_of p = Inr alpha"
    and e: "ewm_mean alpha (map (\<lambda>r. fmul (ret r) (ret r)) (returns_frame flat_frame)) = Inr ev"
    and r: "rows f = returns_frame flat_frame" and ev: "ewma_var f = ev"
    and sm: "sma20 f = rolling_mean (sma_window p) (map (\<lambda>r. aapl_close (px r)) (rows f))"
    and tr: "trend_ok f = map (\<lambda>i. trend_ok_at p (map (\<lambda>r. aapl_close (px r)) (rows f) ! i)
                                     (sma20 f ! i)) [0..<length (rows f)]"
    and vol: "vol_hat_ann f = map vol_hat_ann_at ev"
    and wr: "w_raw f = map (w_raw_at p) (vol_hat_ann f)"
    and g: "g_vix f = map (\<lambda>r. g_vix_at p (vix (px r))) (rows f)"
    and ws: "w f = w_col p (w_raw f) (trend_ok f) (g_vix f)"
    by (rule main_frame_cases)
  show 1: "rows f = [flat_ret_row, flat_ret_row]" by (simp add: r returns_frame_flat)
  show 2: "sma20 f = [NaN, NaN]" using n by (simp add: sm 1 rolling_mean_def)
  show 3: "trend_ok f = [Fin 0, Fin 0]" by (simp add: tr 1 2 trend_ok_at_def fgt_def)
  have al: "alpha = 2 / 21" using a l by (simp add: alpha_of_def)
  have "ev = [Fin 0, Fin 0]"
    using e by (simp add: al returns_frame_flat flat_ret_row_def ewm_mean_def Let_def)
  then show 4: "ewma_var f = [Fin 0, Fin 0]" by (simp add: ev)
  show 5: "vol_hat_ann f = [NaN, NaN]"
    using 4 by (simp add: vol ev vol_hat_ann_at_def)
  show 6: "w_raw f = [Fin 0, Fin 0]"
    by (simp add: wr 5 w_raw_at_def clip_def fillna_def isna_def)
  show 7: "g_vix f = [g_vix_at p 35, g_vix_at p 35]"
    by (simp add: g 1 flat_ret_row_def flat_row_def)
  show "w f = [w_at p (Fin 0) (Fin 0) (g_vix_at p 35), w_at p (Fin 0) (Fin 0) (g_vix_at p 35)]"
    by (simp add: ws 3 6 7 w_col_def)
qed


lemma w_at_trend_zero: "w_at p (Fin a) (Fin 0) (Fin c) = Fin 0"
  by (simp add: w_at_def clip_def Let_def min_def max_def)

lemma rolling_mean_nth:
  assumes "t < length xs"
  shows "rolling_mean n xs ! t =
           (if n = 0 \<or> t + 1 < n then NaN
            else Fin (sum_list (take n (drop (t + 1 - n) xs)) / real n))"
  using assms by (simp add: rolling_mean_def)


lemma ewm_from_nth:
  assumes "t < length xs"
  shows "ewm_from a y xs ! t =
           fadd (fmul (Fin (1 - a)) (if t = 0 then y else ewm_from a y xs ! (t - 1)))
                (fmul (Fin a) (xs ! t))"
  using assms
proof (induction xs arbitrary: y t)
  case Nil
  then show ?case by simp
next
  case (Cons x xs)
  show ?case
  proof (cases t)
    case 0
    then show ?thesis by (simp add: Let_def)
  next
    case (Suc k)
    then have k: "k < length xs" using Cons.prems by simp
    show ?thesis
      using Cons.IH [OF k] Suc by (cases k) (simp_all add: Let_def)
  qed
qed

lemma ewm_rec_0: "xs \<noteq> [] \<Longrightarrow> ewm_rec a xs ! 0 = xs ! 0"
  by (cases xs) simp_all

lemma ewm_rec_Suc:
  assumes "Suc t < length xs"
  shows "ewm_rec a xs ! Suc t =
           fadd (fmul (Fin (1 - a)) (ewm_rec a xs ! t)) (fmul (Fin a) (xs ! Suc t))"
proof (cases xs)
  case Nil
  with assms show ?thesis by simp
next
  case (Cons x ys)
  then have t: "t < length ys" using assms by simp
  show ?thesis
    using ewm_from_nth [OF t, of a x] Cons by (cases t) simp_all
qed


lemma pct_change_from_const:
  assumes "\<forall>x\<in>set xs. x = c"
  shows "\<forall>y\<in>set (pct_change_from c xs). y = fsub (fdiv (Fin c) (Fin c)) (Fin 1)"
  using assms by (induction xs) simp_all

lemma pct_change_const:
  assumes "\<forall>x\<in>set xs. x = c"
  shows "\<forall>y\<in>set (pct_change xs). y = NaN \<or> y = Fin 0"
proof (cases xs)
  case Nil
  then show ?thesis by simp
next
  case (Cons x ys)
  then have "x = c" and "\<forall>y\<in>set ys. y = c" using assms by simp_all
  then have "\<forall>y\<in>set (pct_change_from x ys). y = fsub (fdiv (Fin c) (Fin c)) (Fin 1)"
    using pct_change_from_const [of ys c] by simp
  moreover have "fsub (fdiv (Fin c) (Fin c)) (Fin 1) = NaN
                 \<or> fsub (fdiv (Fin c) (Fin c)) (Fin 1) = Fin 0"
    by (simp add: fsub_def signed_inf_def)
  ultimately show ?thesis using Cons by auto
qed

lemma returns_frame_const:
  assumes "\<forall>r\<in>set df0. aapl_close r = c" and "r \<in> set (returns_frame df0)"
  shows "ret r = Fin 0"
proof -
  from assms(2) obtain x rt where
    mem: "(x, rt) \<in> set (zip df0 (pct_change (map aapl_close df0)))"
    and rr: "ret r = rt" and nn: "\<not> isna rt"
    by (auto simp: returns_frame_def)
  from mem have "rt \<in> set (pct_change (map aapl_close df0))" by (rule set_zip_rightD)
  moreover have "\<forall>x\<in>set (map aapl_close df0). x = c" using assms(1) by simp
  ultimately have "rt = NaN \<or> rt = Fin 0" using pct_change_const by blast
  then show ?thesis using rr nn by (simp add: isna_def)
qed

lemma ewm_from_zero:
  assumes "\<forall>x\<in>set xs. x = Fin 0"
  shows "\<forall>y\<in>set (ewm_from a (Fin 0) xs). y = Fin 0"
  using assms by (induction xs) (simp_all add: Let_def)

lemma ewm_rec_zero:
  assumes "\<forall>x\<in>set xs. x = Fin 0"
  shows "\<forall>y\<in>set (ewm_rec a xs). y = Fin 0"
  using assms ewm_from_zero [of _ a] by (cases xs) simp_all

lemma w_at_raw_zero: "w_at p (Fin 0) (Fin b) (Fin c) = Fin 0"
  by (simp add: w_at_def clip_def Let_def min_def max_def)

lemma w_prev_nth:
  assumes "main_frame p df0 = Inr f" and "vix_width p \<noteq> 0" and "t < length (rows f)"
  shows "w_prev f ! t = (if t = 0 then Fin 0 else w f ! (t - 1))"
proof -
  from assms(1) have wp: "w_prev f = w_prev_col (w f)" by (auto elim: main_frame_cases)
  have tw: "t < length (w f)" using assms(3) frame_lengths [OF assms(1)] by simp
  show ?thesis
  proof (cases "t = 0")
    case True
    then show ?thesis
      using tw by (simp add: wp w_prev_col_def length_shift1 shift1_nth fillna_def isna_def)
  next
    case False
    then have "t - 1 < length (rows f)" using assms(3) by simp
    from w_col_Fin [OF assms(1,2) this] obtain x where "w f ! (t - 1) = Fin x" by blast
    then show ?thesis
      using tw False
      by (simp add: wp w_prev_col_def length_shift1 shift1_nth fillna_def isna_def)
  qed
qed


lemma kept_index_empty:
  assumes "dropna xs = []"
  shows "kept_index xs = []"
proof -
  from assms have all: "\<forall>x\<in>set xs. isna x"
    by (simp add: dropna_def filter_empty_conv)
  have "\<forall>i\<in>set [0..<length xs]. isna (xs ! i)" using all by simp
  then show ?thesis by (simp add: kept_index_def filter_empty_conv)
qed

lemma excess_empty:
  assumes "dropna xs = []"
  shows "excess xs rf = Inr []"
  using assms kept_index_empty [OF assms]
  by (cases rf) (simp_all add: excess_def dropna_def)


lemma np_clip_Fin: "np_clip (Fin a) lo hi = Fin (min (max a lo) hi)"
  by (simp add: np_clip_def)

lemma w_bh_of_default:
  assumes "\<not> fgt (std bh) (Fin 0)"
  shows "w_bh_of strat bh = Fin 1"
proof -
  have "\<not> fgt (fmul (std bh) (Fin (sqrt 252))) (Fin 0)"
    using assms by (cases "std bh") (simp_all add: fgt_def zero_less_mult_iff signed_inf_def)
  then show ?thesis by (simp add: w_bh_of_def Let_def np_clip_def)
qed

lemma w_bh_of_ratio:
  assumes "std bh = Fin b" and "0 < b" and "std strat = Fin s"
  shows "w_bh_of strat bh = Fin (min (max ((s * sqrt 252) / (b * sqrt 252)) 0) 3)"
  using assms by (simp add: w_bh_of_def Let_def fgt_def np_clip_def)


lemma returns_frame_two: "returns_frame [flat_row, flat_row] = [flat_ret_row]"
  by (simp add: returns_frame_def flat_row_def flat_ret_row_def fsub_def isna_def)


section \<open>Facts about the statistics of a series\<close>

lemma all_Fin_map:
  assumes "\<forall>x\<in>set xs. \<exists>v. x = Fin v"
  shows "\<exists>vs. xs = map Fin vs"
  using assms
proof (induction xs)
  case Nil
  then show ?case by simp
next
  case (Cons x xs)
  then obtain v vs where "x = Fin v" and "xs = map Fin vs" by auto
  then show ?case by (intro exI [of _ "v # vs"]) simp
qed

lemma dropna_map_Fin: "dropna (map Fin vs) = map Fin vs"
  by (induction vs) (simp_all add: dropna_def isna_def)

lemma dropna_all_Fin:
  assumes "\<forall>x\<in>set xs. x = NaN \<or> (\<exists>v. x = Fin v)"
  shows "\<exists>vs. dropna xs = map Fin vs"
proof -
  have "\<forall>x\<in>set (dropna xs). \<exists>v. x = Fin v"
    using assms by (auto simp: dropna_def isna_def)
  then show ?thesis by (rule all_Fin_map)
qed

lemma fsum_map_Fin: "fsum (map Fin vs) = Fin (sum_list vs)"
  by (induction vs) simp_all

lemma mean_map_Fin:
  assumes "vs \<noteq> []"
  shows "mean (map Fin vs) = Fin (sum_list vs / real (length vs))"
  using assms by (simp add: mean_def dropna_map_Fin fsum_map_Fin Let_def)

lemma std_short:
  assumes "length (dropna xs) \<le> 1"
  shows "std xs = NaN"
  using assms by (simp add: std_def Let_def)

lemma sqr_map_Fin:
  "map (\<lambda>x. let d = fsub (Fin a) x in fmul d d) (map Fin vs)
     = map Fin (map (\<lambda>v. (a - v) * (a - v)) vs)"
  by (simp add: fsub_def Let_def)

lemma std_map_Fin:
  assumes "2 \<le> length vs"
  shows "\<exists>s. std (map Fin vs) = Fin s \<and> 0 \<le> s"
proof -
  let ?n = "length vs"
  let ?a = "sum_list vs / real ?n"
  let ?q = "sum_list (map (\<lambda>v. (?a - v) * (?a - v)) vs) / real (?n - 1)"
  have n0: "real ?n \<noteq> 0" and n1: "real (?n - 1) \<noteq> 0" and big: "\<not> ?n \<le> 1"
    using assms by auto
  have "0 \<le> sum_list (map (\<lambda>v. (?a - v) * (?a - v)) vs)"
    by (rule sum_list_nonneg) auto
  then have q: "0 \<le> ?q" by simp
  have avg: "fdiv (fsum (map Fin vs)) (Fin (real ?n)) = Fin ?a"
    using n0 by (simp add: fsum_map_Fin)
  have "std (map Fin vs) = fsqrt (fdiv (fsum (map (\<lambda>x. let d = fsub (Fin ?a) x in fmul d d)
                                   (map Fin vs))) (Fin (real (?n - 1))))"
    using big avg by (simp add: std_def dropna_map_Fin Let_def)
  also have "\<dots> = fsqrt (Fin ?q)"
    using n1 unfolding sqr_map_Fin fsum_map_Fin by simp
  also have "\<dots> = Fin (sqrt ?q)" using q by simp
  finally show ?thesis using q by simp
qed

lemma std_not_positive_iff:
  assumes "xs = map Fin vs"
  shows "\<not> fgt (std xs) (Fin 0) \<longleftrightarrow> length xs \<le> 1 \<or> std xs = Fin 0"
proof (cases "length vs \<le> 1")
  case True
  then have "std xs = NaN" using assms by (simp add: std_short dropna_map_Fin)
  then show ?thesis using True assms by (simp add: fgt_def)
next
  case False
  then have "2 \<le> length vs" by simp
  from std_map_Fin [OF this] obtain s where "std xs = Fin s" and "0 \<le> s"
    using assms by auto
  then show ?thesis using False assms by (auto simp: fgt_def)
qed

lemma fle_trans: "fle x y \<Longrightarrow> fle y z \<Longrightarrow> fle x z"
  by (cases x; cases y; cases z) simp_all

lemma fle_refl: "\<not> isna x \<Longrightarrow> fle x x"
  by (cases x) (simp_all add: isna_def)

lemma fmin_le:
  assumes "\<not> isna a" and "\<not> isna y"
  shows "fle (fmin a y) a \<and> \<not> isna (fmin a y)"
  using assms by (cases a; cases y) (simp_all add: fmin_def isna_def)

lemma foldl_fmin_le:
  assumes "\<not> isna a" and "\<forall>y\<in>set ys. \<not> isna y"
  shows "fle (foldl fmin a ys) a \<and> \<not> isna (foldl fmin a ys)"
  using assms
proof (induction ys arbitrary: a)
  case Nil
  then show ?case by (simp add: fle_refl)
next
  case (Cons y ys)
  have step: "fle (fmin a y) a \<and> \<not> isna (fmin a y)"
    using fmin_le [of a y] Cons.prems by simp
  then have "fle (foldl fmin (fmin a y) ys) (fmin a y) \<and> \<not> isna (foldl fmin (fmin a y) ys)"
    using Cons.IH [of "fmin a y"] Cons.prems by simp
  then show ?case using step fle_trans by auto
qed

lemma series_min_head:
  assumes "\<not> isna a"
  shows "fle (series_min (a # xs)) a \<and> series_min (a # xs) \<noteq> NaN"
proof -
  have d: "dropna (a # xs) = a # dropna xs" using assms by (simp add: dropna_def)
  have "\<forall>y\<in>set (dropna xs). \<not> isna y" by (simp add: dropna_def)
  from foldl_fmin_le [OF assms this] show ?thesis
    by (simp add: series_min_def d isna_def)
qed

lemma series_min_all_NaN:
  assumes "\<forall>x\<in>set xs. x = NaN"
  shows "series_min xs = NaN"
proof -
  have "dropna xs = []" using assms by (simp add: dropna_def isna_def filter_empty_conv)
  then show ?thesis by (simp add: series_min_def)
qed

lemma cumprod_from_zero:
  assumes "\<forall>x\<in>set xs. \<exists>v. x = Fin v"
  shows "\<forall>y\<in>set (cumprod_from (Fin 0) xs). y = Fin 0"
  using assms by (induction xs) (auto simp: isna_def Let_def)

lemma cummax_from_zero:
  assumes "\<forall>x\<in>set xs. x = Fin 0"
  shows "\<forall>y\<in>set (cummax_from (Fin 0) xs). y = Fin 0"
  using assms by (induction xs) (auto simp: isna_def Let_def fmax_def)

lemma drawdown_Cons_Fin:
  "drawdown (Fin e # es) =
     fsub (fdiv (Fin e) (Fin e)) (Fin 1)
       # map2 (\<lambda>e m. fsub (fdiv e m) (Fin 1)) es (cummax_from (Fin e) es)"
  by (simp add: drawdown_def cummax_def isna_def fmax_def Let_def)

lemma drawdown_first_nonzero:
  assumes "e \<noteq> 0"
  shows "\<exists>ds. drawdown (Fin e # es) = Fin 0 # ds"
  using assms by (simp add: drawdown_Cons_Fin fsub_def)

lemma drawdown_all_zero:
  assumes "\<forall>x\<in>set es. x = Fin 0"
  shows "\<forall>d\<in>set (drawdown (Fin 0 # es)). d = NaN"
proof -
  have cm: "\<forall>y\<in>set (cummax_from (Fin 0) es). y = Fin 0"
    using assms by (rule cummax_from_zero)
  have "d = NaN"
    if "d \<in> set (map2 (\<lambda>e m. fsub (fdiv e m) (Fin 1)) es (cummax_from (Fin 0) es))" for d
  proof -
    from that obtain e m where "(e, m) \<in> set (zip es (cummax_from (Fin 0) es))"
      and d: "d = fsub (fdiv e m) (Fin 1)" by auto
    then have "e \<in> set es" and "m \<in> set (cummax_from (Fin 0) es)"
      by (auto dest: set_zip_leftD set_zip_rightD)
    then have "e = Fin 0" and "m = Fin 0" using assms cm by auto
    then show ?thesis using d by (simp add: fsub_def signed_inf_def)
  qed
  then show ?thesis by (auto simp: drawdown_Cons_Fin fsub_def signed_inf_def)
qed

lemma cumprod_Cons_Fin:
  "cumprod (Fin v # xs) = Fin v # cumprod_from (Fin v) xs"
  by (simp add: cumprod_def isna_def Let_def)

lemma maxdd_of_returns:
  assumes "r = map Fin (v # vs)"
  shows "(series_min (drawdown (cumprod (map (fadd (Fin 1)) r))) = NaN \<longleftrightarrow> v = - 1)
       \<and> (v \<noteq> - 1 \<longrightarrow> fle (series_min (drawdown (cumprod (map (fadd (Fin 1)) r)))) (Fin 0))"
proof -
  let ?rest = "map (fadd (Fin 1)) (map Fin vs)"
  have eq: "cumprod (map (fadd (Fin 1)) r) = Fin (1 + v) # cumprod_from (Fin (1 + v)) ?rest"
    by (simp add: assms cumprod_Cons_Fin)
  have fin: "\<forall>x\<in>set ?rest. \<exists>u. x = Fin u" by auto
  show ?thesis
  proof (cases "v = - 1")
    case True
    have z: "\<forall>y\<in>set (cumprod_from (Fin 0) ?rest). y = Fin 0"
      using fin by (rule cumprod_from_zero)
    have "\<forall>d\<in>set (drawdown (Fin 0 # cumprod_from (Fin 0) ?rest)). d = NaN"
      using z by (rule drawdown_all_zero)
    then have "series_min (drawdown (Fin 0 # cumprod_from (Fin 0) ?rest)) = NaN"
      by (rule series_min_all_NaN)
    then show ?thesis unfolding eq using True by simp
  next
    case False
    then have "1 + v \<noteq> 0" by simp
    from drawdown_first_nonzero [OF this] obtain ds where
      ds: "drawdown (Fin (1 + v) # cumprod_from (Fin (1 + v)) ?rest) = Fin 0 # ds" by blast
    have "fle (series_min (Fin 0 # ds)) (Fin 0) \<and> series_min (Fin 0 # ds) \<noteq> NaN"
      by (rule series_min_head) (simp add: isna_def)
    then show ?thesis unfolding eq ds using False by simp
  qed
qed

lemma kept_index_nonempty:
  assumes "dropna xs \<noteq> []"
  shows "kept_index xs \<noteq> []"
proof
  assume "kept_index xs = []"
  then have "\<forall>i<length xs. isna (xs ! i)"
    by (simp add: kept_index_def filter_empty_conv)
  then have "\<forall>x\<in>set xs. isna x" by (auto simp: in_set_conv_nth)
  then have "dropna xs = []" by (simp add: dropna_def filter_empty_conv)
  with assms show False by simp
qed

lemma kpis_cases:
  assumes "kpis returns rf = Inr k"
  obtains ex where "excess returns rf = Inr ex"
    and "dropna returns \<noteq> []"
    and "Sharpe k = (if fgt (std (dropna returns)) (Fin 0)
                     then fmul (fdiv (mean ex) (std (dropna returns))) (Fin (sqrt 252))
                     else NaN)"
    and "MaxDD k = series_min (drawdown (cumprod (map (fadd (Fin 1)) (dropna returns))))"
    and "Calmar k = (if flt (MaxDD k) (Fin 0) then fdiv (CAGR k) (fabs (MaxDD k)) else NaN)"
    and "AnnVol k = fmul (std (dropna returns)) (Fin (sqrt 252))"
    and "CAGR k = fsub (fpow (fprod (map (fadd (Fin 1)) (dropna returns)))
                             (252 / real (length (dropna returns)))) (Fin 1)"
  using assms unfolding kpis_def kpi_values_def Let_def
  by (auto split: sum.splits if_splits)

lemma excess_Fin:
  assumes ex: "excess returns rf = Inr ex" and ne: "dropna returns \<noteq> []"
    and fin: "\<forall>x\<in>set returns. x = NaN \<or> (\<exists>v. x = Fin v)"
    and rfin: "\<forall>f. rf = Some f \<longrightarrow> (\<forall>x\<in>set f. \<exists>v. x = Fin v)"
  shows "\<exists>ms. ex = map Fin ms \<and> ms \<noteq> []"
proof (cases rf)
  case None
  then have e: "ex = dropna returns" using ex by (simp add: excess_def)
  from dropna_all_Fin [OF fin] obtain vs where "dropna returns = map Fin vs" by blast
  then show ?thesis using e ne by auto
next
  case (Some f)
  let ?idx = "kept_index returns"
  let ?g = "\<lambda>i. fsub (returns ! i) (f ! i)"
  have nokey: "\<not> list_ex (\<lambda>i. length f \<le> i) ?idx"
    using ex Some by (auto simp: excess_def split: if_splits)
  have e: "ex = dropna (map ?g ?idx)"
    using ex Some nokey by (simp add: excess_def)
  have "\<exists>v. ?g i = Fin v" if i: "i \<in> set ?idx" for i
  proof -
    have il: "i < length returns" and nn: "\<not> isna (returns ! i)"
      using i by (simp_all add: kept_index_def)
    have "returns ! i \<in> set returns" using il by simp
    then obtain a where a: "returns ! i = Fin a" using fin nn by (auto simp: isna_def)
    have "i < length f" using nokey i by (auto simp: list_ex_iff)
    then have "f ! i \<in> set f" by simp
    then obtain b where b: "f ! i = Fin b" using rfin Some by auto
    show ?thesis by (simp add: a b fsub_def)
  qed
  then have "\<forall>x\<in>set (map ?g ?idx). \<exists>v. x = Fin v" by auto
  from all_Fin_map [OF this] obtain ms where ms: "map ?g ?idx = map Fin ms" by blast
  have "length ms = length ?idx" using ms by (metis length_map)
  then have "ms \<noteq> []" using kept_index_nonempty [OF ne] by auto
  moreover have "ex = map Fin ms" by (simp add: e ms dropna_map_Fin)
  ultimately show ?thesis by blast
qed


lemma kpis_total_None:
  assumes "dropna returns \<noteq> []"
  shows "\<exists>k. kpis returns None = Inr k"
  using assms by (simp add: kpis_def excess_def kpi_values_def Let_def)

lemma map_Fin_finite: "\<forall>x\<in>set (map Fin vs). x = NaN \<or> (\<exists>v. x = Fin v)"
  by auto


section \<open>The volatility-regime gate\<close>

text \<open>
  C5. For a positive vix_width the gate is a number in [0, 1] given by the clipped line
  1 - (V - vix_cut) / vix_width; it never increases when V increases; it is 1 for every
  V at or below vix_cut, 0 for every V at or above vix_cut + vix_width, and equal to the
  line itself in between.
\<close>

theorem g_vix_monotone_piecewise_linear:
  assumes "0 < vix_width p"
  shows "(\<exists>g. g_vix_at p v = Fin g \<and> 0 \<le> g \<and> g \<le> 1
             \<and> g = min (max (1 - (v - vix_cut p) / vix_width p) 0) 1)
       \<and> (\<forall>v'. v \<le> v' \<longrightarrow> fle (g_vix_at p v') (g_vix_at p v))
       \<and> (v \<le> vix_cut p \<longrightarrow> g_vix_at p v = Fin 1)
       \<and> (vix_cut p + vix_width p \<le> v \<longrightarrow> g_vix_at p v = Fin 0)
       \<and> (vix_cut p \<le> v \<and> v \<le> vix_cut p + vix_width p
            \<longrightarrow> g_vix_at p v = Fin (1 - (v - vix_cut p) / vix_width p))"
proof -
  let ?w = "vix_width p" and ?c = "vix_cut p"
  have nz: "?w \<noteq> 0" using assms by simp
  have line: "\<And>u. g_vix_at p u = Fin (min (max (1 - (u - ?c) / ?w) 0) 1)"
    using g_vix_at_Fin [OF nz] by simp
  have mono: "fle (g_vix_at p v') (g_vix_at p v)" if "v \<le> v'" for v'
  proof -
    have "(v - ?c) / ?w \<le> (v' - ?c) / ?w"
      using that assms by (simp add: divide_right_mono)
    then show ?thesis by (simp add: line min_def max_def)
  qed
  have one: "g_vix_at p v = Fin 1" if "v \<le> ?c"
  proof -
    have "(v - ?c) / ?w \<le> 0" using that assms by (simp add: divide_le_0_iff)
    then show ?thesis by (simp add: line min_def max_def)
  qed
  have zero: "g_vix_at p v = Fin 0" if "?c + ?w \<le> v"
  proof -
    have "1 \<le> (v - ?c) / ?w" using that assms by (simp add: le_divide_eq)
    then show ?thesis by (simp add: line min_def max_def)
  qed
  have mid: "g_vix_at p v = Fin (1 - (v - ?c) / ?w)" if "?c \<le> v" "v \<le> ?c + ?w"
  proof -
    have "0 \<le> (v - ?c) / ?w" using that assms by simp
    moreover have "(v - ?c) / ?w \<le> 1" using that assms by (simp add: divide_le_eq)
    ultimately show ?thesis by (simp add: line min_def max_def)
  qed
  show ?thesis using line mono one zero mid by (simp add: min_def max_def)
qed

theorem g_vix_monotone_piecewise_linear_witness:
  "0 < vix_width script_params
   \<and> g_vix_at script_params 40 = Fin (1 / 2)
   \<and> g_vix_at script_params 30 = Fin 1
   \<and> g_vix_at script_params 45 = Fin 0
   \<and> fle (g_vix_at script_params 50) (g_vix_at script_params 40)"
proof -
  have h: "0 < vix_width script_params" by (simp add: script_params_def)
  have a: "g_vix_at script_params 40 = Fin (1 / 2)"
    using g_vix_monotone_piecewise_linear [OF h, of 40] by (simp add: script_params_def)
  have b: "g_vix_at script_params 30 = Fin 1"
    using g_vix_monotone_piecewise_linear [OF h, of 30] by (simp add: script_params_def)
  have c: "g_vix_at script_params 45 = Fin 0"
    using g_vix_monotone_piecewise_linear [OF h, of 45] by (simp add: script_params_def)
  have d: "fle (g_vix_at script_params 50) (g_vix_at script_params 40)"
  proof -
    from g_vix_monotone_piecewise_linear [OF h, of 40]
    have "\<forall>v'. 40 \<le> v' \<longrightarrow> fle (g_vix_at script_params v') (g_vix_at script_params 40)"
      by blast
    then have "(40::real) \<le> 50 \<longrightarrow> fle (g_vix_at script_params 50) (g_vix_at script_params 40)"
      by blast
    then show ?thesis by simp
  qed
  show ?thesis using h a b c d by simp
qed

section \<open>The composite weight\<close>

text \<open>
  C1. With a non-negative leverage cap and a non-zero vix_width, on every row t of the
  frame the weight w(t) is a number in [0, lev_cap], and it is 0 whenever trend_ok(t) is 0
  or the gate g_vix(t) is 0.
\<close>

theorem w_in_range_and_gated:
  assumes "main_frame p df0 = Inr f" and "0 \<le> lev_cap p" and "vix_width p \<noteq> 0"
    and "t < length (rows f)"
  shows "t < length (w f)
       \<and> (\<exists>x. w f ! t = Fin x \<and> 0 \<le> x \<and> x \<le> lev_cap p)
       \<and> (trend_ok f ! t = Fin 0 \<or> g_vix f ! t = Fin 0 \<longrightarrow> w f ! t = Fin 0)"
proof -
  from assms(1) have
        tr: "trend_ok f = map (\<lambda>i. trend_ok_at p (map (\<lambda>r. aapl_close (px r)) (rows f) ! i)
                                     (sma20 f ! i)) [0..<length (rows f)]"
    and wr: "w_raw f = map (w_raw_at p) (vol_hat_ann f)"
    and g: "g_vix f = map (\<lambda>r. g_vix_at p (vix (px r))) (rows f)"
    and ws: "w f = w_col p (w_raw f) (trend_ok f) (g_vix f)"
    by (auto elim: main_frame_cases)
  note len = frame_lengths [OF assms(1)]
  have tw: "t < length (w f)" using assms(4) len by simp
  obtain a where a: "w_raw f ! t = Fin a"
    using w_raw_at_Fin [of p "vol_hat_ann f ! t"] assms(4) len by (auto simp: wr)
  obtain b where b: "trend_ok f ! t = Fin b"
    using trend_ok_at_cases [of p "map (\<lambda>r. aapl_close (px r)) (rows f) ! t" "sma20 f ! t"]
      assms(4) by (auto simp: tr)
  obtain c where c: "g_vix f ! t = Fin c"
    using g_vix_at_range [OF assms(3), of "vix (px (rows f ! t))"] assms(4) by (auto simp: g)
  have wt: "w f ! t = w_at p (Fin a) (Fin b) (Fin c)"
    using assms(4) len a b c by (simp add: ws w_col_def)
  have rng: "\<exists>x. w f ! t = Fin x \<and> 0 \<le> x \<and> x \<le> lev_cap p"
    unfolding wt by (rule w_at_range [OF assms(2)])
  have zero: "w f ! t = Fin 0" if "trend_ok f ! t = Fin 0 \<or> g_vix f ! t = Fin 0"
    unfolding wt using that b c by (intro w_at_zero [OF assms(2)]) auto
  show ?thesis using tw rng zero by blast
qed

theorem w_in_range_and_gated_witness:
  "main_frame script_params flat_frame = Inr flat_result
   \<and> 0 \<le> lev_cap script_params \<and> vix_width script_params \<noteq> 0
   \<and> 0 < length (rows flat_result)
   \<and> trend_ok flat_result ! 0 = Fin 0
   \<and> w flat_result ! 0 = Fin 0"
proof -
  have c: "0 \<le> lev_cap script_params" and v: "vix_width script_params \<noteq> 0"
    by (simp_all add: script_params_def)
  have t: "0 < length (rows flat_result)" by (simp add: flat_result_def)
  have tr: "trend_ok flat_result ! 0 = Fin 0" by (simp add: flat_result_def)
  have "w flat_result ! 0 = Fin 0"
    using w_in_range_and_gated [OF main_frame_flat c v t] tr by simp
  then show ?thesis using main_frame_flat c v t tr by simp
qed

section \<open>The simulated return\<close>

text \<open>
  C4. On every row t the weight used is the one of the row before (0 on the first row),
  and strat_ret(t) = w_prev(t) r(t) + (1 - w_prev(t)) rf(t) - (cost_bps / 10000) |w(t) - w_prev(t)|,
  as the float expression of lines 112 to 116 and, for a finite return, as a number.
\<close>

theorem strat_ret_uses_previous_weight:
  assumes "main_frame p df0 = Inr f" and "vix_width p \<noteq> 0" and "t < length (rows f)"
  shows "t < length (strat_ret f)
       \<and> w_prev f ! t = (if t = 0 then Fin 0 else w f ! (t - 1))
       \<and> strat_ret f ! t =
           fsub (fadd (fmul (w_prev f ! t) (ret (rows f ! t)))
                      (fmul (fsub (Fin 1) (w_prev f ! t)) (Fin (rf_daily (rows f ! t)))))
                (fmul (Fin (cost_bps p / 10000)) (fabs (fsub (w f ! t) (w_prev f ! t))))
       \<and> (\<exists>wt wp. w f ! t = Fin wt \<and> w_prev f ! t = Fin wp
             \<and> (\<forall>r. ret (rows f ! t) = Fin r \<longrightarrow>
                   strat_ret f ! t =
                     Fin (wp * r + (1 - wp) * rf_daily (rows f ! t)
                          - cost_bps p / 10000 * \<bar>wt - wp\<bar>)))"
proof -
  from assms(1) have
        wp: "w_prev f = w_prev_col (w f)"
    and st: "strat_ret f = strat_ret_col p (w f) (w_prev f) (rows f)"
    by (auto elim: main_frame_cases)
  note len = frame_lengths [OF assms(1)]
  have tl: "t < length (strat_ret f)" using assms(3) len by simp
  have tw: "t < length (w f)" using assms(3) len by simp
  obtain wt where wt: "w f ! t = Fin wt" using w_col_Fin [OF assms] by blast
  have prev: "w_prev f ! t = (if t = 0 then Fin 0 else w f ! (t - 1))"
  proof (cases "t = 0")
    case True
    then show ?thesis
      using tw by (simp add: wp w_prev_col_def length_shift1 shift1_nth fillna_def isna_def)
  next
    case False
    then have "t - 1 < length (rows f)" using assms(3) by simp
    from w_col_Fin [OF assms(1,2) this] obtain x where "w f ! (t - 1) = Fin x" by blast
    then show ?thesis
      using tw False
      by (simp add: wp w_prev_col_def length_shift1 shift1_nth fillna_def isna_def)
  qed
  obtain pv where pv: "w_prev f ! t = Fin pv"
  proof (cases "t = 0")
    case True
    then show ?thesis using prev that by simp
  next
    case False
    then have "t - 1 < length (rows f)" using assms(3) by simp
    from w_col_Fin [OF assms(1,2) this] obtain x where "w f ! (t - 1) = Fin x" by blast
    then show ?thesis using prev False that by simp
  qed
  have formula: "strat_ret f ! t =
           fsub (fadd (fmul (w_prev f ! t) (ret (rows f ! t)))
                      (fmul (fsub (Fin 1) (w_prev f ! t)) (Fin (rf_daily (rows f ! t)))))
                (fmul (Fin (cost_bps p / 10000)) (fabs (fsub (w f ! t) (w_prev f ! t))))"
    using assms(3)
    by (simp add: st strat_ret_col_def gross_at_def cost_at_def turnover_at_def)
  have num: "strat_ret f ! t =
               Fin (pv * r + (1 - pv) * rf_daily (rows f ! t)
                    - cost_bps p / 10000 * \<bar>wt - pv\<bar>)"
    if "ret (rows f ! t) = Fin r" for r
    unfolding formula using that by (simp add: wt pv fsub_def)
  show ?thesis using tl prev formula wt pv num by blast
qed

theorem strat_ret_uses_previous_weight_witness:
  "main_frame script_params flat_frame = Inr flat_result
   \<and> vix_width script_params \<noteq> 0 \<and> 1 < length (rows flat_result)
   \<and> w_prev flat_result ! 1 = w flat_result ! 0
   \<and> strat_ret flat_result ! 1 = Fin (1 / 10000)"
proof -
  have v: "vix_width script_params \<noteq> 0" by (simp add: script_params_def)
  have t: "1 < length (rows flat_result)" by (simp add: flat_result_def)
  have "w_prev flat_result ! 1 = w flat_result ! 0"
    using strat_ret_uses_previous_weight [OF main_frame_flat v t] by simp
  moreover have "strat_ret flat_result ! 1 = Fin (1 / 10000)"
    by (simp add: flat_result_def)
  ultimately show ?thesis using main_frame_flat v t by simp
qed

section \<open>Configuration values and errors\<close>

text \<open>
  C2, the claim as stated fails. With vix_width = 0 the run is not aborted: on the flat
  frame, whose volatility index equals vix_cut, the gate column and the weight column are
  missing values on every row. With lev_cap = -1 the run is not aborted either.
\<close>

theorem zero_vix_width_not_rejected:
  "map_sum id g_vix (main_frame (script_params\<lparr>vix_width := 0\<rparr>) flat_frame) = Inr [NaN, NaN]
   \<and> map_sum id w (main_frame (script_params\<lparr>vix_width := 0\<rparr>) flat_frame) = Inr [NaN, NaN]
   \<and> map_sum id w (main_frame (script_params\<lparr>lev_cap := - 1\<rparr>) flat_frame)
       = Inr [Fin 0, Fin 0]"
proof -
  let ?p = "script_params\<lparr>vix_width := 0\<rparr>" and ?q = "script_params\<lparr>lev_cap := - 1\<rparr>"
  have lp: "lookback_vol ?p = 20" and np: "2 < sma_window ?p"
    and lq: "lookback_vol ?q = 20" and nq: "2 < sma_window ?q"
    by (simp_all add: script_params_def)
  obtain f where f: "main_frame ?p flat_frame = Inr f"
    using main_frame_total [of ?p flat_frame] lp by auto
  obtain h where h: "main_frame ?q flat_frame = Inr h"
    using main_frame_total [of ?q flat_frame] lq by auto
  have gp: "g_vix_at ?p 35 = NaN"
    by (simp add: g_vix_at_def script_params_def fsub_def signed_inf_def clip_def)
  have gq: "g_vix_at ?q 35 = Fin 1"
    by (simp add: g_vix_at_def script_params_def fsub_def clip_def)
  have "g_vix f = [NaN, NaN]"
    using flat_frame_columns(7) [OF f lp np] by (simp add: gp)
  moreover have "w f = [NaN, NaN]"
    using flat_frame_columns(8) [OF f lp np] by (simp add: gp w_at_def clip_def)
  moreover have "w h = [Fin 0, Fin 0]"
  proof -
    have "w_at ?q (Fin 0) (Fin 0) (Fin 1) = Fin 0"
      by (simp add: w_at_def clip_def script_params_def)
    then show ?thesis using flat_frame_columns(8) [OF h lq nq] by (simp add: gq)
  qed
  ultimately show ?thesis by (simp add: f h)
qed

text \<open>
  C2, amended. The run of main up to the simulated returns is aborted exactly when
  lookback_vol is below 1 (so for every lookback_vol at or below 0): by the division of
  line 103 when lookback_vol = -1, and otherwise by the smoothing-factor check of the ewm
  call of line 104. No other parameter is checked: for every vix_width and every lev_cap
  the run goes through when lookback_vol is at least 1.
\<close>

theorem main_frame_rejects_only_lookback:
  "(main_frame p df0 = Inl ZeroDivisionError \<longleftrightarrow> lookback_vol p = - 1)
   \<and> (main_frame p df0 = Inl ValueError \<longleftrightarrow> lookback_vol p < 1 \<and> lookback_vol p \<noteq> - 1)
   \<and> ((\<exists>f. main_frame p df0 = Inr f) \<longleftrightarrow> 1 \<le> lookback_vol p)"
proof (cases "lookback_vol p = - 1")
  case True
  then have "main_frame p df0 = Inl ZeroDivisionError"
    by (simp add: main_frame_def alpha_of_def Let_def)
  then show ?thesis using True by simp
next
  case False
  then have nz: "lookback_vol p + 1 \<noteq> 0" by simp
  have a: "alpha_of p = Inr (2 / (lookback_vol p + 1))" using nz by (simp add: alpha_of_def)
  show ?thesis
  proof (cases "lookback_vol p < 1")
    case True
    then have "2 / (lookback_vol p + 1) \<le> 0 \<or> 1 < 2 / (lookback_vol p + 1)"
      using alpha_range [OF nz] by simp
    then have "main_frame p df0 = Inl ValueError"
      by (simp add: main_frame_def a ewm_mean_def Let_def)
    then show ?thesis using True False by simp
  next
    case False
    then have "\<not> (2 / (lookback_vol p + 1) \<le> 0 \<or> 1 < 2 / (lookback_vol p + 1))"
      using alpha_range [OF nz] by simp
    then have "\<exists>f. main_frame p df0 = Inr f"
      by (simp add: main_frame_def a ewm_mean_def Let_def)
    then show ?thesis using False \<open>lookback_vol p \<noteq> - 1\<close> by auto
  qed
qed

theorem main_frame_rejects_only_lookback_witness:
  "main_frame (script_params\<lparr>lookback_vol := 0\<rparr>) flat_frame = Inl ValueError
   \<and> main_frame (script_params\<lparr>lookback_vol := - 1\<rparr>) flat_frame = Inl ZeroDivisionError
   \<and> (\<exists>f. main_frame (script_params\<lparr>vix_width := 0, lev_cap := - 1\<rparr>) flat_frame = Inr f)"
proof -
  have a: "main_frame (script_params\<lparr>lookback_vol := 0\<rparr>) flat_frame = Inl ValueError"
    using main_frame_rejects_only_lookback [of "script_params\<lparr>lookback_vol := 0\<rparr>" flat_frame]
    by simp
  have b: "main_frame (script_params\<lparr>lookback_vol := - 1\<rparr>) flat_frame
             = Inl ZeroDivisionError"
    using main_frame_rejects_only_lookback [of "script_params\<lparr>lookback_vol := - 1\<rparr>" flat_frame]
    by simp
  have c: "\<exists>f. main_frame (script_params\<lparr>vix_width := 0, lev_cap := - 1\<rparr>) flat_frame = Inr f"
    using main_frame_rejects_only_lookback
      [of "script_params\<lparr>vix_width := 0, lev_cap := - 1\<rparr>" flat_frame]
    by (simp add: script_params_def)
  show ?thesis using a b c by simp
qed

section \<open>The trend filter on an incomplete window\<close>

text \<open>
  C3, the claim as stated fails. With the script's window of 20 rows, both rows of the
  flat frame have an incomplete window: their moving average is missing, yet each is
  given trend_ok = 0.0, stays in the frame and has a simulated return.
\<close>

theorem incomplete_window_row_is_simulated:
  "map_sum id sma20 (main_frame script_params flat_frame) = Inr [NaN, NaN]
   \<and> map_sum id trend_ok (main_frame script_params flat_frame) = Inr [Fin 0, Fin 0]
   \<and> map_sum id strat_ret (main_frame script_params flat_frame)
       = Inr [Fin (1 / 10000), Fin (1 / 10000)]
   \<and> map_sum id rows (main_frame script_params flat_frame) = Inr (returns_frame flat_frame)"
  by (simp add: main_frame_flat flat_result_def returns_frame_flat)

text \<open>
  C3, amended. No row is removed after the signals are computed. On a row t whose
  trailing window is incomplete (t + 1 < sma_window, counting the rows of the frame of
  line 86) the moving average is missing, trend_ok(t) is 0.0, hence the weight is 0 (for
  a non-zero vix_width), and the row is simulated like every other. On a row with a full
  window the average is the mean of the last sma_window closes and trend_ok(t) is 1.0
  exactly when the close exceeds (1 + sma_band) times the average.
\<close>

theorem incomplete_trend_window_row_kept:
  assumes "main_frame p df0 = Inr f" and "t < length (rows f)"
  shows "rows f = returns_frame df0
       \<and> t < length (trend_ok f) \<and> t < length (w f) \<and> t < length (strat_ret f)
       \<and> (t + 1 < sma_window p \<longrightarrow>
            sma20 f ! t = NaN \<and> trend_ok f ! t = Fin 0
            \<and> (vix_width p \<noteq> 0 \<longrightarrow> w f ! t = Fin 0))
       \<and> (0 < sma_window p \<and> sma_window p \<le> t + 1 \<longrightarrow>
            (\<exists>m. sma20 f ! t = Fin m
               \<and> m = sum_list (take (sma_window p)
                        (drop (t + 1 - sma_window p) (map (\<lambda>r. aapl_close (px r)) (rows f))))
                      / real (sma_window p)
               \<and> trend_ok f ! t =
                   (if (1 + sma_band p) * m < aapl_close (px (rows f ! t)) then Fin 1 else Fin 0)))"
proof -
  from assms(1) have
        r: "rows f = returns_frame df0"
    and sm: "sma20 f = rolling_mean (sma_window p) (map (\<lambda>r. aapl_close (px r)) (rows f))"
    and tr: "trend_ok f = map (\<lambda>i. trend_ok_at p (map (\<lambda>r. aapl_close (px r)) (rows f) ! i)
                                     (sma20 f ! i)) [0..<length (rows f)]"
    and wr: "w_raw f = map (w_raw_at p) (vol_hat_ann f)"
    and g: "g_vix f = map (\<lambda>r. g_vix_at p (vix (px r))) (rows f)"
    and ws: "w f = w_col p (w_raw f) (trend_ok f) (g_vix f)"
    by (auto elim: main_frame_cases)
  note len = frame_lengths [OF assms(1)]
  have lens: "t < length (trend_ok f)" "t < length (w f)" "t < length (strat_ret f)"
    using assms(2) len by simp_all
  have sma_t: "sma20 f ! t =
           (if sma_window p = 0 \<or> t + 1 < sma_window p then NaN
            else Fin (sum_list (take (sma_window p)
                        (drop (t + 1 - sma_window p) (map (\<lambda>r. aapl_close (px r)) (rows f))))
                      / real (sma_window p)))"
    using assms(2) by (simp add: sm rolling_mean_nth)
  have tr_t: "trend_ok f ! t = trend_ok_at p (aapl_close (px (rows f ! t))) (sma20 f ! t)"
    using assms(2) by (simp add: tr)
  have early: "sma20 f ! t = NaN \<and> trend_ok f ! t = Fin 0
                \<and> (vix_width p \<noteq> 0 \<longrightarrow> w f ! t = Fin 0)"
    if short: "t + 1 < sma_window p"
  proof -
    have s: "sma20 f ! t = NaN" using short by (simp add: sma_t)
    have z: "trend_ok f ! t = Fin 0" by (simp add: tr_t s trend_ok_at_def fgt_def)
    have "w f ! t = Fin 0" if nz: "vix_width p \<noteq> 0"
    proof -
      obtain a where a: "w_raw f ! t = Fin a"
        using w_raw_at_Fin [of p "vol_hat_ann f ! t"] assms(2) len by (auto simp: wr)
      obtain c where c: "g_vix f ! t = Fin c"
        using g_vix_at_range [OF nz, of "vix (px (rows f ! t))"] assms(2) by (auto simp: g)
      have "w f ! t = w_at p (Fin a) (Fin 0) (Fin c)"
        using assms(2) len a z c by (simp add: ws w_col_def)
      then show ?thesis by (simp add: w_at_trend_zero)
    qed
    then show ?thesis using s z by simp
  qed
  have late: "\<exists>m. sma20 f ! t = Fin m
               \<and> m = sum_list (take (sma_window p)
                        (drop (t + 1 - sma_window p) (map (\<lambda>r. aapl_close (px r)) (rows f))))
                      / real (sma_window p)
               \<and> trend_ok f ! t =
                   (if (1 + sma_band p) * m < aapl_close (px (rows f ! t)) then Fin 1 else Fin 0)"
    if full: "0 < sma_window p \<and> sma_window p \<le> t + 1"
  proof -
    let ?m = "sum_list (take (sma_window p)
                        (drop (t + 1 - sma_window p) (map (\<lambda>r. aapl_close (px r)) (rows f))))
                      / real (sma_window p)"
    have s: "sma20 f ! t = Fin ?m" using full by (simp add: sma_t)
    have "trend_ok f ! t =
            (if (1 + sma_band p) * ?m < aapl_close (px (rows f ! t)) then Fin 1 else Fin 0)"
      by (simp add: tr_t s trend_ok_at_def fgt_def)
    then show ?thesis using s by blast
  qed
  show ?thesis using r lens early late by blast
qed

theorem incomplete_trend_window_row_kept_witness:
  "main_frame script_params flat_frame = Inr flat_result
   \<and> 0 < length (rows flat_result) \<and> 0 + 1 < sma_window script_params
   \<and> sma20 flat_result ! 0 = NaN \<and> trend_ok flat_result ! 0 = Fin 0
   \<and> 0 < length (strat_ret flat_result)"
proof -
  have t: "0 < length (rows flat_result)" by (simp add: flat_result_def)
  have n: "0 + 1 < sma_window script_params" by (simp add: script_params_def)
  show ?thesis
    using incomplete_trend_window_row_kept [OF main_frame_flat t] main_frame_flat t n by simp
qed


section \<open>The realized volatility\<close>

text \<open>
  C6, the claim as stated fails. On the flat frame the variance estimate is 0 on every
  row and the vol_hat_ann column is missing there, whereas sqrt(252 x 0) is 0.
\<close>

theorem vol_hat_ann_zero_is_missing:
  "map_sum id ewma_var (main_frame script_params flat_frame) = Inr [Fin 0, Fin 0]
   \<and> map_sum id vol_hat_ann (main_frame script_params flat_frame) = Inr [NaN, NaN]
   \<and> fsqrt (fmul (Fin 252) (Fin 0)) = Fin 0"
  by (simp add: main_frame_flat flat_result_def)

text \<open>
  C6, amended. The smoothing factor alpha = 2 / (lookback_vol + 1) lies in (0, 1]; the
  estimate is seeded with the first squared return and follows
  ewma_var(t) = alpha r(t)^2 + (1 - alpha) ewma_var(t - 1) on every later row;
  vol_hat_ann(t) = sqrt(252 ewma_var(t)) where the estimate is positive, and vol_hat_ann(t)
  is missing where the estimate is 0.
\<close>

theorem ewma_var_recurrence:
  assumes "main_frame p df0 = Inr f"
  shows "0 < 2 / (lookback_vol p + 1) \<and> 2 / (lookback_vol p + 1) \<le> 1
       \<and> length (ewma_var f) = length (rows f)
       \<and> (0 < length (rows f) \<longrightarrow>
            ewma_var f ! 0 = fmul (ret (rows f ! 0)) (ret (rows f ! 0)))
       \<and> (\<forall>t. Suc t < length (rows f) \<longrightarrow>
            ewma_var f ! Suc t =
              fadd (fmul (Fin (1 - 2 / (lookback_vol p + 1))) (ewma_var f ! t))
                   (fmul (Fin (2 / (lookback_vol p + 1)))
                         (fmul (ret (rows f ! Suc t)) (ret (rows f ! Suc t)))))
       \<and> (\<forall>t r e. Suc t < length (rows f) \<and> ret (rows f ! Suc t) = Fin r
                  \<and> ewma_var f ! t = Fin e \<longrightarrow>
            ewma_var f ! Suc t =
              Fin (2 / (lookback_vol p + 1) * r\<^sup>2 + (1 - 2 / (lookback_vol p + 1)) * e))
       \<and> (\<forall>t e. t < length (rows f) \<and> ewma_var f ! t = Fin e \<and> 0 < e \<longrightarrow>
            vol_hat_ann f ! t = Fin (sqrt (252 * e)))
       \<and> (\<forall>t. t < length (rows f) \<and> ewma_var f ! t = Fin 0 \<longrightarrow> vol_hat_ann f ! t = NaN)"
proof -
  let ?a = "2 / (lookback_vol p + 1)"
  let ?sq = "map (\<lambda>r. fmul (ret r) (ret r)) (rows f)"
  from assms obtain alpha ev where a: "alpha_of p = Inr alpha"
    and e: "ewm_mean alpha (map (\<lambda>r. fmul (ret r) (ret r)) (returns_frame df0)) = Inr ev"
    and r: "rows f = returns_frame df0" and ev: "ewma_var f = ev"
    and vol: "vol_hat_ann f = map vol_hat_ann_at ev"
    by (rule main_frame_cases)
  have al: "alpha = ?a" using a by (auto simp: alpha_of_def split: if_splits)
  have rng: "0 < ?a \<and> ?a \<le> 1"
    using e by (auto simp: ewm_mean_def al split: if_splits)
  have evr: "ewma_var f = ewm_rec ?a ?sq"
    using e by (auto simp: ewm_mean_def al ev r split: if_splits)
  have len: "length (ewma_var f) = length (rows f)" by (simp add: evr length_ewm_rec)
  have seed: "ewma_var f ! 0 = fmul (ret (rows f ! 0)) (ret (rows f ! 0))"
    if "0 < length (rows f)"
    using that by (simp add: evr ewm_rec_0)
  have step: "ewma_var f ! Suc t =
              fadd (fmul (Fin (1 - ?a)) (ewma_var f ! t))
                   (fmul (Fin ?a) (fmul (ret (rows f ! Suc t)) (ret (rows f ! Suc t))))"
    if "Suc t < length (rows f)" for t
    using that by (simp add: evr ewm_rec_Suc)
  have num: "ewma_var f ! Suc t = Fin (?a * r\<^sup>2 + (1 - ?a) * e)"
    if "Suc t < length (rows f) \<and> ret (rows f ! Suc t) = Fin r \<and> ewma_var f ! t = Fin e"
    for t r e
    using that step [of t] by (simp add: power2_eq_square)
  have volpos: "vol_hat_ann f ! t = Fin (sqrt (252 * e))"
    if "t < length (rows f) \<and> ewma_var f ! t = Fin e \<and> 0 < e" for t e
    using that len by (simp add: vol ev [symmetric] vol_hat_ann_at_def Let_def)
  have volzero: "vol_hat_ann f ! t = NaN"
    if "t < length (rows f) \<and> ewma_var f ! t = Fin 0" for t
    using that len by (simp add: vol ev [symmetric] vol_hat_ann_at_def Let_def)
  show ?thesis using rng len seed step num volpos volzero by blast
qed

theorem ewma_var_recurrence_witness:
  "main_frame script_params flat_frame = Inr flat_result
   \<and> Suc 0 < length (rows flat_result)
   \<and> ewma_var flat_result ! Suc 0 = Fin (2 / 21 * 0\<^sup>2 + (1 - 2 / 21) * 0)
   \<and> vol_hat_ann flat_result ! Suc 0 = NaN"
proof -
  have t: "Suc 0 < length (rows flat_result)" by (simp add: flat_result_def)
  have r: "ret (rows flat_result ! Suc 0) = Fin 0"
    by (simp add: flat_result_def flat_ret_row_def)
  have e: "ewma_var flat_result ! 0 = Fin 0" by (simp add: flat_result_def)
  have l: "2 / (lookback_vol script_params + 1) = 2 / 21" by (simp add: script_params_def)
  note inst = ewma_var_recurrence [OF main_frame_flat]
  from inst have "\<forall>t r e. Suc t < length (rows flat_result) \<and> ret (rows flat_result ! Suc t) = Fin r
                  \<and> ewma_var flat_result ! t = Fin e \<longrightarrow>
            ewma_var flat_result ! Suc t =
              Fin (2 / (lookback_vol script_params + 1) * r\<^sup>2
                   + (1 - 2 / (lookback_vol script_params + 1)) * e)"
    by blast
  then have s: "ewma_var flat_result ! Suc 0 = Fin (2 / 21 * 0\<^sup>2 + (1 - 2 / 21) * 0)"
    using t r e unfolding l by blast
  have v: "vol_hat_ann flat_result ! Suc 0 = NaN" by (simp add: flat_result_def)
  show ?thesis using main_frame_flat t s v by simp
qed


section \<open>A constant price series\<close>

text \<open>
  C7, the claim as stated fails. On the flat frame, whose close is constant, the
  vol_hat_ann column is missing on every row, not 0.
\<close>

theorem constant_prices_vol_hat_ann_missing:
  "map aapl_close flat_frame = [100, 100, 100]
   \<and> map_sum id vol_hat_ann (main_frame script_params flat_frame) = Inr [NaN, NaN]
   \<and> map_sum id w_raw (main_frame script_params flat_frame) = Inr [Fin 0, Fin 0]"
proof -
  have "map aapl_close flat_frame = [100, 100, 100]"
    by (simp add: flat_frame_def flat_row_def)
  then show ?thesis by (simp add: main_frame_flat flat_result_def)
qed

text \<open>
  C7, amended. When every close of the frame is the same (and vix_width is not zero), on
  every row the return is 0, the variance estimate is 0, vol_hat_ann is missing, the raw
  weight and the weight are 0, and the strategy return is the risk-free rate of the row.
\<close>

theorem constant_prices_hold_risk_free:
  assumes "main_frame p df0 = Inr f" and "\<forall>r\<in>set df0. aapl_close r = c"
    and "vix_width p \<noteq> 0" and "t < length (rows f)"
  shows "ret (rows f ! t) = Fin 0
       \<and> ewma_var f ! t = Fin 0
       \<and> vol_hat_ann f ! t = NaN
       \<and> w_raw f ! t = Fin 0
       \<and> w f ! t = Fin 0
       \<and> strat_ret f ! t = Fin (rf_daily (rows f ! t))"
proof -
  from assms(1) obtain alpha ev where a: "alpha_of p = Inr alpha"
    and e: "ewm_mean alpha (map (\<lambda>r. fmul (ret r) (ret r)) (returns_frame df0)) = Inr ev"
    and r: "rows f = returns_frame df0" and ev: "ewma_var f = ev"
    and tr: "trend_ok f = map (\<lambda>i. trend_ok_at p (map (\<lambda>r. aapl_close (px r)) (rows f) ! i)
                                     (sma20 f ! i)) [0..<length (rows f)]"
    and vol: "vol_hat_ann f = map vol_hat_ann_at ev"
    and wr: "w_raw f = map (w_raw_at p) (vol_hat_ann f)"
    and g: "g_vix f = map (\<lambda>r. g_vix_at p (vix (px r))) (rows f)"
    and ws: "w f = w_col p (w_raw f) (trend_ok f) (g_vix f)"
    and st: "strat_ret f = strat_ret_col p (w f) (w_prev f) (rows f)"
    by (rule main_frame_cases)
  note len = frame_lengths [OF assms(1)]
  have rets: "ret x = Fin 0" if "x \<in> set (rows f)" for x
    using returns_frame_const [OF assms(2)] that by (simp add: r)
  have ret_t: "ret (rows f ! t) = Fin 0" using rets assms(4) by simp
  have "ev = ewm_rec alpha (map (\<lambda>r. fmul (ret r) (ret r)) (rows f))"
    using e by (auto simp: ewm_mean_def r split: if_splits)
  moreover have "\<forall>x\<in>set (map (\<lambda>r. fmul (ret r) (ret r)) (rows f)). x = Fin 0"
    using rets by simp
  from ewm_rec_zero [OF this, of alpha]
  have "\<forall>y\<in>set (ewm_rec alpha (map (\<lambda>r. fmul (ret r) (ret r)) (rows f))). y = Fin 0" .
  ultimately have "\<forall>y\<in>set ev. y = Fin 0" by simp
  then have ev_t: "ewma_var f ! t = Fin 0" using assms(4) len by (simp add: ev [symmetric])
  have vol_t: "vol_hat_ann f ! t = NaN"
    using assms(4) len ev_t by (simp add: vol ev [symmetric] vol_hat_ann_at_def)
  have wr_t: "w_raw f ! t = Fin 0" if "t < length (rows f)" "vol_hat_ann f ! t = NaN" for t
    using that len by (simp add: wr w_raw_at_def clip_def fillna_def isna_def)
  have w_all: "w f ! k = Fin 0" if k: "k < length (rows f)" for k
  proof -
    have "ewma_var f ! k = Fin 0"
      using \<open>\<forall>y\<in>set ev. y = Fin 0\<close> k len by (simp add: ev [symmetric])
    then have "vol_hat_ann f ! k = NaN"
      using k len by (simp add: vol ev [symmetric] vol_hat_ann_at_def)
    then have a0: "w_raw f ! k = Fin 0" using wr_t k by simp
    obtain b where b: "trend_ok f ! k = Fin b"
      using trend_ok_at_cases [of p "map (\<lambda>r. aapl_close (px r)) (rows f) ! k" "sma20 f ! k"]
        k by (auto simp: tr)
    obtain c' where c: "g_vix f ! k = Fin c'"
      using g_vix_at_range [OF assms(3), of "vix (px (rows f ! k))"] k by (auto simp: g)
    have "w f ! k = w_at p (Fin 0) (Fin b) (Fin c')"
      using k len a0 b c by (simp add: ws w_col_def)
    then show ?thesis by (simp add: w_at_raw_zero)
  qed
  have wp_t: "w_prev f ! t = Fin 0"
    using w_prev_nth [OF assms(1,3,4)] w_all [of "t - 1"] assms(4) by (cases "t = 0") simp_all
  have "strat_ret f ! t = Fin (rf_daily (rows f ! t))"
    using assms(4) ret_t wp_t w_all [OF assms(4)]
    by (simp add: st strat_ret_col_def gross_at_def cost_at_def turnover_at_def fsub_def)
  then show ?thesis using ret_t ev_t vol_t wr_t [OF assms(4) vol_t] w_all [OF assms(4)] by simp
qed

theorem constant_prices_hold_risk_free_witness:
  "main_frame script_params flat_frame = Inr flat_result
   \<and> vix_width script_params \<noteq> 0 \<and> 1 < length (rows flat_result)
   \<and> vol_hat_ann flat_result ! 1 = NaN
   \<and> w flat_result ! 1 = Fin 0
   \<and> strat_ret flat_result ! 1 = Fin (rf_daily (rows flat_result ! 1))"
proof -
  have c: "\<forall>r\<in>set flat_frame. aapl_close r = 100"
    by (simp add: flat_frame_def flat_row_def)
  have v: "vix_width script_params \<noteq> 0" by (simp add: script_params_def)
  have t: "1 < length (rows flat_result)" by (simp add: flat_result_def)
  show ?thesis
    using constant_prices_hold_risk_free [OF main_frame_flat c v t] main_frame_flat v t by simp
qed

section \<open>The volatility-matched baseline\<close>

text \<open>
  C9, the claim as stated fails. On a frame with a single return row the sample
  volatility of buy-and-hold is missing, not 0, so the stated ratio is not a number;
  the script's scale factor is 1 all the same.
\<close>

theorem single_row_vol_matched_default:
  "map_sum id bh_ret (main_frame script_params [flat_row, flat_row]) = Inr [Fin 0]
   \<and> std [Fin 0] = NaN
   \<and> np_clip (fdiv (fmul (std [Fin (1 / 10000)]) (Fin (sqrt 252)))
                    (fmul (std [Fin 0]) (Fin (sqrt 252)))) 0 3 = NaN
   \<and> map_sum id w_bh (main_frame script_params [flat_row, flat_row]) = Inr (Fin 1)"
proof -
  have "1 \<le> lookback_vol script_params" by (simp add: script_params_def)
  then obtain f where f: "main_frame script_params [flat_row, flat_row] = Inr f"
    using main_frame_total by blast
  from f have
        r: "rows f = returns_frame [flat_row, flat_row]"
    and bh: "bh_ret f = map ret (rows f)"
    and wb: "w_bh f = w_bh_of (strat_ret f) (bh_ret f)"
    by (auto elim: main_frame_cases)
  have b: "bh_ret f = [Fin 0]" by (simp add: bh r returns_frame_two flat_ret_row_def)
  have "w_bh f = Fin 1"
    unfolding wb b by (rule w_bh_of_default) (simp add: std_single fgt_def)
  then show ?thesis using b by (simp add: f std_single np_clip_def)
qed

text \<open>
  C9, amended. The scale factor w_bh is 1 whenever the annualized sample volatility of
  buy-and-hold is not greater than 0, that is when it is 0 or missing; when it is
  positive, w_bh is the ratio of the annualized sample volatility of the strategy returns
  to it, clipped to [0, 3]. On every row the blended return is
  w_bh r(t) + (1 - w_bh) rf(t).
\<close>

theorem vol_matched_baseline:
  assumes "main_frame p df0 = Inr f"
  shows "bh_ret f = map ret (rows f)
       \<and> (\<not> fgt (std (bh_ret f)) (Fin 0) \<longrightarrow> w_bh f = Fin 1)
       \<and> (std (bh_ret f) = Fin 0 \<longrightarrow> w_bh f = Fin 1)
       \<and> (\<forall>b s. std (bh_ret f) = Fin b \<and> 0 < b \<and> std (strat_ret f) = Fin s \<longrightarrow>
             w_bh f = Fin (min (max ((s * sqrt 252) / (b * sqrt 252)) 0) 3))
       \<and> (\<forall>t. t < length (rows f) \<longrightarrow>
             bh_vm_ret f ! t =
               fadd (fmul (w_bh f) (ret (rows f ! t)))
                    (fmul (fsub (Fin 1) (w_bh f)) (Fin (rf_daily (rows f ! t)))))
       \<and> (\<forall>t x r. t < length (rows f) \<and> w_bh f = Fin x \<and> ret (rows f ! t) = Fin r \<longrightarrow>
             bh_vm_ret f ! t = Fin (x * r + (1 - x) * rf_daily (rows f ! t)))"
proof -
  from assms have
        bh: "bh_ret f = map ret (rows f)"
    and wb: "w_bh f = w_bh_of (strat_ret f) (bh_ret f)"
    and vm: "bh_vm_ret f = map (\<lambda>r. bh_vm_ret_at (w_bh f) (ret r) (rf_daily r)) (rows f)"
    by (auto elim: main_frame_cases)
  have d1: "w_bh f = Fin 1" if "\<not> fgt (std (bh_ret f)) (Fin 0)"
    unfolding wb using that by (rule w_bh_of_default)
  have d2: "w_bh f = Fin 1" if "std (bh_ret f) = Fin 0"
    using d1 that by (simp add: fgt_def)
  have ratio: "w_bh f = Fin (min (max ((s * sqrt 252) / (b * sqrt 252)) 0) 3)"
    if "std (bh_ret f) = Fin b \<and> 0 < b \<and> std (strat_ret f) = Fin s" for b s
    unfolding wb using that by (intro w_bh_of_ratio) simp_all
  have blend: "bh_vm_ret f ! t =
               fadd (fmul (w_bh f) (ret (rows f ! t)))
                    (fmul (fsub (Fin 1) (w_bh f)) (Fin (rf_daily (rows f ! t))))"
    if "t < length (rows f)" for t
    using that by (simp add: vm bh_vm_ret_at_def)
  have num: "bh_vm_ret f ! t = Fin (x * r + (1 - x) * rf_daily (rows f ! t))"
    if "t < length (rows f) \<and> w_bh f = Fin x \<and> ret (rows f ! t) = Fin r" for t x r
    using that blend [of t] by (simp add: fsub_def)
  show ?thesis using bh d1 d2 ratio blend num by blast
qed

theorem vol_matched_baseline_witness:
  "main_frame script_params flat_frame = Inr flat_result
   \<and> std (bh_ret flat_result) = Fin 0
   \<and> w_bh flat_result = Fin 1
   \<and> 1 < length (rows flat_result)
   \<and> bh_vm_ret flat_result ! 1 = Fin (1 * 0 + (1 - 1) * rf_daily (rows flat_result ! 1))"
proof -
  have s: "std (bh_ret flat_result) = Fin 0" by (simp add: flat_result_def std_pair_equal)
  have t: "1 < length (rows flat_result)" by (simp add: flat_result_def)
  have r: "ret (rows flat_result ! 1) = Fin 0" by (simp add: flat_result_def flat_ret_row_def)
  note inst = vol_matched_baseline [OF main_frame_flat]
  have w1: "w_bh flat_result = Fin 1" using inst s by blast
  from inst have "\<forall>t x r. t < length (rows flat_result) \<and> w_bh flat_result = Fin x
                    \<and> ret (rows flat_result ! t) = Fin r \<longrightarrow>
             bh_vm_ret flat_result ! t = Fin (x * r + (1 - x) * rf_daily (rows flat_result ! t))"
    by blast
  then have "bh_vm_ret flat_result ! 1 = Fin (1 * 0 + (1 - 1) * rf_daily (rows flat_result ! 1))"
    using t w1 r by blast
  then show ?thesis using main_frame_flat s w1 t by simp
qed


section \<open>The performance evaluator on an empty series\<close>

text \<open>
  C10. When no return is left after dropping the missing ones, kpis raises the
  ZeroDivisionError of the exponent 252.0 / len(r) and returns no record: a record is
  returned only for a series with at least one return.
\<close>

theorem kpis_empty_series_raises:
  "(dropna returns = [] \<longrightarrow> kpis returns rf = Inl ZeroDivisionError)
   \<and> (\<forall>k. kpis returns rf = Inr k \<longrightarrow> dropna returns \<noteq> [])"
proof -
  have raise: "kpis returns rf = Inl ZeroDivisionError" if e: "dropna returns = []"
    by (simp add: kpis_def excess_empty [OF e] e kpi_values_def)
  have "dropna returns \<noteq> []" if "kpis returns rf = Inr k" for k
  proof
    assume "dropna returns = []"
    then have "kpis returns rf = Inl ZeroDivisionError" by (rule raise)
    with that show False by simp
  qed
  then show ?thesis using raise by blast
qed

theorem kpis_empty_series_raises_witness:
  "dropna [NaN, NaN] = []
   \<and> kpis [NaN, NaN] (Some [Fin 0, Fin 0]) = Inl ZeroDivisionError
   \<and> kpis [] None = Inl ZeroDivisionError"
proof -
  have a: "dropna [NaN, NaN] = []" and b: "dropna [] = []"
    by (simp_all add: dropna_def isna_def)
  have "kpis [NaN, NaN] (Some [Fin 0, Fin 0]) = Inl ZeroDivisionError"
    using kpis_empty_series_raises [of "[NaN, NaN]" "Some [Fin 0, Fin 0]"] a by blast
  moreover have "kpis [] None = Inl ZeroDivisionError"
    using kpis_empty_series_raises [of "[]" None] b by blast
  ultimately show ?thesis using a by simp
qed

section \<open>The KPI record\<close>

text \<open>
  C8, the claim as stated fails. For a series with a single return the sample standard
  deviation is missing, not 0, and Sharpe is not-a-number; for a series whose first return
  is -1 the equity curve is 0 throughout, every drawdown is 0/0 and MaxDD is not-a-number,
  hence not at or below 0.
\<close>

theorem single_return_sharpe_and_total_loss_maxdd:
  "std [Fin (1 / 100)] = NaN
   \<and> map_sum id Sharpe (kpis [Fin (1 / 100)] None) = Inr NaN
   \<and> map_sum id MaxDD (kpis [Fin (- 1)] None) = Inr NaN"
proof -
  have d: "dropna [Fin a] = [Fin a]" for a by (simp add: dropna_def isna_def)
  have s: "map_sum id Sharpe (kpis [Fin (1 / 100)] None) = Inr NaN"
    by (simp add: kpis_def excess_def d kpi_values_def Let_def std_single fgt_def)
  have "series_min (drawdown (cumprod (map (fadd (Fin 1)) [Fin (- 1)]))) = NaN"
    by (simp add: cumprod_def drawdown_def cummax_def series_min_def dropna_def isna_def
        fmax_def fsub_def signed_inf_def Let_def)
  then have m: "map_sum id MaxDD (kpis [Fin (- 1)] None) = Inr NaN"
    by (simp add: kpis_def excess_def d kpi_values_def Let_def)
  show ?thesis using s m by (simp add: std_single)
qed

text \<open>
  C8, amended. For a series of finite returns (and a finite risk-free series, when one
  is given), in every KPI record: Sharpe is not-a-number exactly when std(r) is not
  greater than 0, that is when r has fewer than two returns or std(r) = 0, and otherwise
  equals mean(excess return) / std(r) x sqrt(252); MaxDD is the minimum of the drawdowns
  eq(t) / max(eq(0..t)) - 1, it is not-a-number exactly when the first return is -1 and
  otherwise at or below 0; Calmar is CAGR / |MaxDD| when MaxDD is below 0 and
  not-a-number otherwise.
\<close>

theorem kpis_degenerate_metrics:
  assumes "kpis returns rf = Inr k"
    and "\<forall>x\<in>set returns. x = NaN \<or> (\<exists>v. x = Fin v)"
    and "\<forall>f. rf = Some f \<longrightarrow> (\<forall>x\<in>set f. \<exists>v. x = Fin v)"
  shows "dropna returns \<noteq> []
       \<and> (Sharpe k = NaN \<longleftrightarrow> \<not> fgt (std (dropna returns)) (Fin 0))
       \<and> (\<not> fgt (std (dropna returns)) (Fin 0)
            \<longleftrightarrow> length (dropna returns) \<le> 1 \<or> std (dropna returns) = Fin 0)
       \<and> (\<exists>ex. excess returns rf = Inr ex
             \<and> (\<forall>s. std (dropna returns) = Fin s \<and> 0 < s \<longrightarrow>
                   (\<exists>m. mean ex = Fin m \<and> Sharpe k = Fin (m / s * sqrt 252))))
       \<and> MaxDD k = series_min (drawdown (cumprod (map (fadd (Fin 1)) (dropna returns))))
       \<and> (MaxDD k = NaN \<longleftrightarrow> hd (dropna returns) = Fin (- 1))
       \<and> (MaxDD k \<noteq> NaN \<longrightarrow> fle (MaxDD k) (Fin 0))
       \<and> (flt (MaxDD k) (Fin 0) \<longrightarrow> Calmar k = fdiv (CAGR k) (fabs (MaxDD k)))
       \<and> (\<not> flt (MaxDD k) (Fin 0) \<longrightarrow> Calmar k = NaN)"
proof -
  let ?r = "dropna returns"
  from assms(1) obtain ex where ex: "excess returns rf = Inr ex"
    and ne: "?r \<noteq> []"
    and sh: "Sharpe k = (if fgt (std ?r) (Fin 0)
                     then fmul (fdiv (mean ex) (std ?r)) (Fin (sqrt 252)) else NaN)"
    and md: "MaxDD k = series_min (drawdown (cumprod (map (fadd (Fin 1)) ?r)))"
    and cm: "Calmar k = (if flt (MaxDD k) (Fin 0) then fdiv (CAGR k) (fabs (MaxDD k)) else NaN)"
    by (rule kpis_cases)
  from dropna_all_Fin [OF assms(2)] obtain vs where vs: "?r = map Fin vs" by blast
  from excess_Fin [OF ex ne assms(2,3)] obtain ms where ms: "ex = map Fin ms" "ms \<noteq> []"
    by blast
  have mean_ex: "mean ex = Fin (sum_list ms / real (length ms))"
    using ms by (simp add: mean_map_Fin)
  have pos: "Sharpe k = Fin (sum_list ms / real (length ms) / s * sqrt 252)"
    if "std ?r = Fin s \<and> 0 < s" for s
    using that by (simp add: sh mean_ex fgt_def)
  have nan_iff: "Sharpe k = NaN \<longleftrightarrow> \<not> fgt (std ?r) (Fin 0)"
  proof (cases "fgt (std ?r) (Fin 0)")
    case True
    then obtain s where "std ?r = Fin s" and "0 < s"
      using std_not_positive_iff [OF vs] vs std_map_Fin [of vs]
      by (cases "std ?r") (auto simp: fgt_def)
    then show ?thesis using True pos by simp
  next
    case False
    then show ?thesis by (simp add: sh)
  qed
  have std_iff: "\<not> fgt (std ?r) (Fin 0) \<longleftrightarrow> length ?r \<le> 1 \<or> std ?r = Fin 0"
    using vs by (rule std_not_positive_iff)
  have sharpe_val: "\<exists>m. mean ex = Fin m \<and> Sharpe k = Fin (m / s * sqrt 252)"
    if "std ?r = Fin s \<and> 0 < s" for s
    using pos [OF that] mean_ex by simp
  obtain v vs' where r: "?r = map Fin (v # vs')"
    using vs ne by (cases vs) auto
  have hd: "hd ?r = Fin v" by (simp add: r)
  have dd: "(MaxDD k = NaN \<longleftrightarrow> v = - 1) \<and> (v \<noteq> - 1 \<longrightarrow> fle (MaxDD k) (Fin 0))"
    unfolding md by (rule maxdd_of_returns [OF r])
  have m1: "MaxDD k = NaN \<longleftrightarrow> hd ?r = Fin (- 1)" using dd hd by simp
  have m2: "fle (MaxDD k) (Fin 0)" if "MaxDD k \<noteq> NaN" using dd that by blast
  have c1: "Calmar k = fdiv (CAGR k) (fabs (MaxDD k))" if "flt (MaxDD k) (Fin 0)"
    using that by (simp add: cm)
  have c2: "Calmar k = NaN" if "\<not> flt (MaxDD k) (Fin 0)"
    using that by (simp add: cm)
  show ?thesis
    using ne nan_iff std_iff ex sharpe_val md m1 m2 c1 c2 by blast
qed


theorem kpis_degenerate_metrics_witness:
  "\<exists>k. kpis [Fin (1 / 100), Fin (- (1 / 100))] None = Inr k
      \<and> Sharpe k \<noteq> NaN \<and> MaxDD k \<noteq> NaN \<and> fle (MaxDD k) (Fin 0)"
proof -
  let ?xs = "[Fin (1 / 100), Fin (- (1 / 100))]"
  have d: "dropna ?xs = ?xs" by (simp add: dropna_def isna_def)
  obtain k where k: "kpis ?xs None = Inr k"
    using kpis_total_None [of ?xs] d by auto
  have fin: "\<forall>x\<in>set ?xs. x = NaN \<or> (\<exists>v. x = Fin v)"
    using map_Fin_finite [of "[1 / 100, - (1 / 100)]"] by simp
  have rf: "\<forall>f. (None :: fl list option) = Some f \<longrightarrow> (\<forall>x\<in>set f. \<exists>v. x = Fin v)" by simp
  note inst = kpis_degenerate_metrics [OF k fin rf]
  have s0: "std ?xs \<noteq> Fin 0"
    by (simp add: std_def dropna_def isna_def Let_def fsub_def)
  have "\<not> (length (dropna ?xs) \<le> 1 \<or> std (dropna ?xs) = Fin 0)"
    using s0 by (simp add: d)
  then have sh: "Sharpe k \<noteq> NaN" using inst by blast
  have "hd (dropna ?xs) \<noteq> Fin (- 1)" by (simp add: d)
  then have md: "MaxDD k \<noteq> NaN" using inst by blast
  then have "fle (MaxDD k) (Fin 0)" using inst by blast
  then show ?thesis using k sh md by blast
qed

end
